theory Spec2Isabelle
  imports Complex_Main "HOL-Library.Word"
begin

section \<open>JavaScript values\<close>

text \<open>
  The serializer of \<^verbatim>\<open>src/lib/serializer.ts\<close> works on values of type \<^verbatim>\<open>any\<close>.
  The values of the model are: \<^verbatim>\<open>undefined\<close>, \<^verbatim>\<open>null\<close>, booleans, numbers, strings,
  \<^verbatim>\<open>Uint8Array\<close>s, \<^verbatim>\<open>Date\<close>s, arrays and plain objects.

  \<^item> A number is \<^verbatim>\<open>NaN\<close> or a rational: every finite double is a rational, and the
    comparisons and the remainder the serializer applies to numbers are exact on doubles.
    The infinities and the negative zero are left out.
  \<^item> A string is a list of characters; only ASCII letters change under case folding.
  \<^item> A \<^verbatim>\<open>Date\<close> is its time value in milliseconds (\<^verbatim>\<open>NaN\<close> for an invalid date).
  \<^item> An object is the list of its own properties in insertion order, with distinct keys;
    inherited properties are not modelled. An array holds its elements only.
  \<^item> An object, an array, a \<^verbatim>\<open>Date\<close> or a \<^verbatim>\<open>Uint8Array\<close> is a reference. A reference that
    stands at one place only is written as what it holds. A reference that may stand at
    several places is written \<open>JShared n v\<close> at each of them, where \<open>n\<close> numbers the reference
    and \<open>v\<close> is what it holds: two places hold the same reference exactly when both are
    \<open>JShared\<close> with the same number. So \<^verbatim>\<open>o = {}; [o, o]\<close> is
    \<open>JArr [JShared 0 (JObj []), JShared 0 (JObj [])]\<close>, and \<^verbatim>\<open>[{}, {}]\<close> is
    \<open>JArr [JObj [], JObj []]\<close>.
\<close>

datatype jsnum = NaN | Num rat

datatype jsval =
    Undefined
  | Null
  | JBool bool
  | JNum jsnum
  | JStr string
  | JBytes "8 word list"
  | JDate jsnum
  | JArr "jsval list"
  | JObj "(string \<times> jsval) list"
  | JShared nat jsval

text \<open>
  What a call does: it returns a value, it throws, it recurses deeper than the fuel it was
  given allows (the source has no bound: a schema that refers to itself can recurse until
  the stack overflows), or it does something the value model above cannot express
  (a property written on an array, a \<^verbatim>\<open>Date\<close> or a \<^verbatim>\<open>Uint8Array\<close>, or through a shared
  reference, where the write would show at the other places that hold it).
\<close>

datatype constraintName =
    CExclusiveMaximum | CExclusiveMinimum | CInclusiveMaximum | CInclusiveMinimum
  | CMaxItems | CMaxLength | CMinItems | CMinLength | CMultipleOf | CPattern | CUniqueItems

datatype error =
    ConstraintViolated string jsval constraintName jsval
      \<comment> \<open>\<^verbatim>\<open>"<objectName>" with value "<value>" should satisfy the constraint "<name>": <bound>.\<close>\<close>
  | CannotBeUndefined string
  | CannotBeNullOrUndefined string
  | CannotBeNull string
  | MustBeOfType string string
      \<comment> \<open>\<^verbatim>\<open><objectName> ... must be of type <type>\<close> and its variants\<close>
  | NoAllowedValues string
  | NotAValidEnumValue jsval string
  | ElementMetadataMissing string
  | ValueMetadataMissing string
  | ClassNameMissing string
  | ModelMapperMissing string
  | ModelPropertiesMissing string string
  | DiscriminatorObjectMissing string string
  | DiscriminatorFieldMissing string string
  | DiscriminatorInvalid string
  | InvalidMode string string
  | Base64UrlInputNotBytes
  | Base64UrlInputNotString
  | InvalidBase64 string
  | TypeError
      \<comment> \<open>the runtime's own: a property of \<^verbatim>\<open>undefined\<close> or \<^verbatim>\<open>null\<close> read or written, a property
          written on a primitive (the module is in strict mode), a method that is missing\<close>
  | RangeError
      \<comment> \<open>the runtime's own: \<^verbatim>\<open>toISOString\<close> of an invalid date\<close>

datatype 'a result = Ret 'a | Throw error | OutOfFuel | Unmodelled

definition rbind :: "'a result \<Rightarrow> ('a \<Rightarrow> 'b result) \<Rightarrow> 'b result" where
  "rbind r f = (case r of Ret x \<Rightarrow> f x | Throw e \<Rightarrow> Throw e | OutOfFuel \<Rightarrow> OutOfFuel
                | Unmodelled \<Rightarrow> Unmodelled)"

definition andThen :: "unit result \<Rightarrow> 'b result \<Rightarrow> 'b result" where
  "andThen r k = rbind r (\<lambda>_. k)"

subsection \<open>Tests and coercions of the language\<close>

definition absent :: "jsval \<Rightarrow> bool" where
  \<comment> \<open>\<^verbatim>\<open>v == undefined\<close>\<close>
  "absent v = (v = Undefined \<or> v = Null)"

fun truthy :: "jsval \<Rightarrow> bool" where
  "truthy Undefined = False"
| "truthy Null = False"
| "truthy (JBool b) = b"
| "truthy (JNum n) = (n \<noteq> NaN \<and> n \<noteq> Num 0)"
| "truthy (JStr s) = (s \<noteq> [])"
| "truthy _ = True"

fun js_typeof :: "jsval \<Rightarrow> string" where
  "js_typeof Undefined = ''undefined''"
| "js_typeof (JBool b) = ''boolean''"
| "js_typeof (JNum n) = ''number''"
| "js_typeof (JStr s) = ''string''"
| "js_typeof _ = ''object''"

fun referent :: "jsval \<Rightarrow> jsval" where
  \<comment> \<open>what a place holds, through a shared reference or not\<close>
  "referent (JShared n v) = referent v"
| "referent v = v"

fun isObjectRef :: "jsval \<Rightarrow> bool" where
  \<comment> \<open>a value compared by reference\<close>
  "isObjectRef (JBytes b) = True"
| "isObjectRef (JDate t) = True"
| "isObjectRef (JArr xs) = True"
| "isObjectRef (JObj kvs) = True"
| "isObjectRef (JShared n v) = True"
| "isObjectRef _ = False"

fun sharedAs :: "jsval \<Rightarrow> nat option" where
  \<comment> \<open>the number of the shared reference a place holds\<close>
  "sharedAs (JShared n v) = Some n"
| "sharedAs _ = None"

definition strictEq :: "jsval \<Rightarrow> jsval \<Rightarrow> bool" where
  \<comment> \<open>\<^verbatim>\<open>a === b\<close> for the values held at two different places: two references are equal when
      they are the same shared reference, two primitives when they are the same value, and
      \<^verbatim>\<open>NaN\<close> equals nothing\<close>
  "strictEq a b =
     (if isObjectRef a then sharedAs a \<noteq> None \<and> sharedAs a = sharedAs b
      else a \<noteq> JNum NaN \<and> a = b)"

definition lowerChar :: "char \<Rightarrow> char" where
  "lowerChar c =
     (case map_of (zip ''ABCDEFGHIJKLMNOPQRSTUVWXYZ'' ''abcdefghijklmnopqrstuvwxyz'') c of
        Some l \<Rightarrow> l
      | None \<Rightarrow> c)"

definition toLowerCase :: "string \<Rightarrow> string" where
  "toLowerCase s = map lowerChar s"

definition typeNameIs :: "string \<Rightarrow> string list \<Rightarrow> bool" where
  \<comment> \<open>\<^verbatim>\<open>mapperType.match(/^(A|B|...)$/ig) !== null\<close>\<close>
  "typeNameIs mapperType names = (toLowerCase mapperType \<in> set (map toLowerCase names))"

subsection \<open>Numbers\<close>

definition js_lt :: "jsnum \<Rightarrow> jsnum \<Rightarrow> bool" where
  "js_lt a b = (case a of NaN \<Rightarrow> False | Num x \<Rightarrow> (case b of NaN \<Rightarrow> False | Num y \<Rightarrow> x < y))"

definition js_le :: "jsnum \<Rightarrow> jsnum \<Rightarrow> bool" where
  "js_le a b = (case a of NaN \<Rightarrow> False | Num x \<Rightarrow> (case b of NaN \<Rightarrow> False | Num y \<Rightarrow> x \<le> y))"

definition js_gt :: "jsnum \<Rightarrow> jsnum \<Rightarrow> bool" where
  "js_gt a b = js_lt b a"

definition js_ge :: "jsnum \<Rightarrow> jsnum \<Rightarrow> bool" where
  "js_ge a b = js_le b a"

definition js_rem :: "jsnum \<Rightarrow> jsnum \<Rightarrow> jsnum" where
  \<comment> \<open>\<^verbatim>\<open>a % b\<close>: the remainder of the truncated division, \<^verbatim>\<open>NaN\<close> when \<^verbatim>\<open>b\<close> is zero\<close>
  "js_rem a b =
     (case a of NaN \<Rightarrow> NaN
      | Num x \<Rightarrow> (case b of NaN \<Rightarrow> NaN
          | Num y \<Rightarrow> if y = 0 then NaN
                     else Num (x - y * (if x / y < 0 then - of_int \<lfloor>- (x / y)\<rfloor> else of_int \<lfloor>x / y\<rfloor>))))"

subsection \<open>Decimal numerals\<close>

fun positionOf :: "string \<Rightarrow> char \<Rightarrow> nat option" where
  \<comment> \<open>the position of a character in an alphabet\<close>
  "positionOf [] c = None"
| "positionOf (a # alphabet) c =
     (if a = c then Some 0 else map_option Suc (positionOf alphabet c))"

definition digitChar :: "nat \<Rightarrow> char" where
  "digitChar d = ''0123456789'' ! (d mod 10)"

fun showNat :: "nat \<Rightarrow> string" where
  "showNat n = (if n < 10 then [digitChar n] else showNat (n div 10) @ [digitChar (n mod 10)])"

declare showNat.simps [simp del]

definition showInt :: "int \<Rightarrow> string" where
  "showInt i = (if i < 0 then CHR ''-'' # showNat (nat (- i)) else showNat (nat i))"

definition isDigit :: "char \<Rightarrow> bool" where
  "isDigit c = (positionOf ''0123456789'' c \<noteq> None)"

definition readNat :: "string \<Rightarrow> nat" where
  "readNat s =
     foldl (\<lambda>acc c. 10 * acc + (case positionOf ''0123456789'' c of Some d \<Rightarrow> d | None \<Rightarrow> 0)) 0 s"

definition arrayIndex :: "string \<Rightarrow> nat option" where
  \<comment> \<open>the index a property key denotes, when it is a canonical numeric string\<close>
  "arrayIndex k =
     (if k \<noteq> [] \<and> list_all isDigit k \<and> (k = ''0'' \<or> hd k \<noteq> CHR ''0'') then Some (readNat k)
      else None)"

fun joinWith :: "string \<Rightarrow> string list \<Rightarrow> string" where
  "joinWith sep [] = []"
| "joinWith sep [x] = x"
| "joinWith sep (x # y # ys) = x @ sep @ joinWith sep (y # ys)"

subsection \<open>Properties of values\<close>

fun objSet :: "(string \<times> jsval) list \<Rightarrow> string \<Rightarrow> jsval \<Rightarrow> (string \<times> jsval) list" where
  \<comment> \<open>\<^verbatim>\<open>o[k] = v\<close> on the own properties: an existing key keeps its place, a new one is last\<close>
  "objSet [] k v = [(k, v)]"
| "objSet ((k', v') # kvs) k v = (if k' = k then (k, v) # kvs else (k', v') # objSet kvs k v)"

definition elementAt :: "'a list \<Rightarrow> ('a \<Rightarrow> jsval) \<Rightarrow> string \<Rightarrow> jsval" where
  \<comment> \<open>the properties of an array-like: \<^verbatim>\<open>length\<close> and the indices\<close>
  "elementAt xs f k =
     (if k = ''length'' then JNum (Num (of_nat (length xs)))
      else (case arrayIndex k of
              Some i \<Rightarrow> if i < length xs then f (xs ! i) else Undefined
            | None \<Rightarrow> Undefined))"

fun propOf :: "jsval \<Rightarrow> string \<Rightarrow> jsval" where
  \<comment> \<open>\<^verbatim>\<open>v[k]\<close> for a value that is neither \<^verbatim>\<open>undefined\<close> nor \<^verbatim>\<open>null\<close>\<close>
  "propOf (JShared n v) k = propOf v k"
| "propOf (JObj kvs) k = (case map_of kvs k of Some v \<Rightarrow> v | None \<Rightarrow> Undefined)"
| "propOf (JArr xs) k = elementAt xs (\<lambda>x. x) k"
| "propOf (JStr s) k = elementAt s (\<lambda>c. JStr [c]) k"
| "propOf (JBytes bs) k = elementAt bs (\<lambda>b. JNum (Num (of_nat (unat b)))) k"
| "propOf _ k = Undefined"

definition getProp :: "jsval \<Rightarrow> string \<Rightarrow> jsval result" where
  \<comment> \<open>\<^verbatim>\<open>v[k]\<close>: a TypeError on \<^verbatim>\<open>undefined\<close> and \<^verbatim>\<open>null\<close>\<close>
  "getProp v k = (if absent v then Throw TypeError else Ret (propOf v k))"

fun setProp :: "jsval \<Rightarrow> string \<Rightarrow> jsval \<Rightarrow> jsval result" where
  \<comment> \<open>\<^verbatim>\<open>v[k] = x\<close>, returning \<^verbatim>\<open>v\<close> as it is afterwards\<close>
  "setProp (JObj kvs) k x = Ret (JObj (objSet kvs k x))"
| "setProp (JArr xs) k x = Unmodelled"
| "setProp (JBytes bs) k x = Unmodelled"
| "setProp (JDate t) k x = Unmodelled"
| "setProp (JShared n v) k x = Unmodelled"
| "setProp _ k x = Throw TypeError"

fun ownKeys :: "jsval \<Rightarrow> string list result" where
  \<comment> \<open>\<^verbatim>\<open>Object.keys(v)\<close>\<close>
  "ownKeys Undefined = Throw TypeError"
| "ownKeys Null = Throw TypeError"
| "ownKeys (JObj kvs) = Ret (map fst kvs)"
| "ownKeys (JArr xs) = Ret (map showNat [0..<length xs])"
| "ownKeys (JStr s) = Ret (map showNat [0..<length s])"
| "ownKeys (JBytes bs) = Ret (map showNat [0..<length bs])"
| "ownKeys (JShared n v) = ownKeys v"
| "ownKeys _ = Ret []"

fun isArray :: "jsval \<Rightarrow> bool" where
  "isArray (JArr xs) = True"
| "isArray (JShared n v) = isArray v"
| "isArray _ = False"

subsection \<open>The runtime and the helper modules\<close>

text \<open>
  The serializer calls primitives of the JavaScript runtime whose definitions are not part of
  the repository, and two helper modules, \<^verbatim>\<open>./util/base64\<close> and \<^verbatim>\<open>./util/utils\<close>, whose
  sources are not among the files at hand. They are parameters of the model.
\<close>

type_synonym regexp = string

record host =
  stringToNumber :: "string \<Rightarrow> jsnum"            \<comment> \<open>\<^verbatim>\<open>Number(s)\<close>\<close>
  parseFloatStr :: "string \<Rightarrow> jsnum"             \<comment> \<open>\<^verbatim>\<open>parseFloat(s)\<close>\<close>
  fractionToString :: "rat \<Rightarrow> string"            \<comment> \<open>\<^verbatim>\<open>String(x)\<close> for a number that is not an integer\<close>
  regexMatch :: "string \<Rightarrow> regexp \<Rightarrow> bool"        \<comment> \<open>\<^verbatim>\<open>s.match(re) !== null\<close>\<close>
  dateParse :: "string \<Rightarrow> jsnum"                 \<comment> \<open>\<^verbatim>\<open>Date.parse(s)\<close>\<close>
  dateToString :: "jsnum \<Rightarrow> string"              \<comment> \<open>\<^verbatim>\<open>String(d)\<close>\<close>
  toISOString :: "rat \<Rightarrow> string"                 \<comment> \<open>\<^verbatim>\<open>d.toISOString()\<close> of a valid date\<close>
  toUTCString :: "jsnum \<Rightarrow> string"               \<comment> \<open>\<^verbatim>\<open>d.toUTCString()\<close>\<close>
  isValidUuid :: "string \<Rightarrow> bool"                \<comment> \<open>\<^verbatim>\<open>utils.isValidUuid\<close>\<close>
  isDuration :: "jsval \<Rightarrow> bool"                  \<comment> \<open>\<^verbatim>\<open>utils.isDuration\<close>\<close>
  encodeByteArray :: "8 word list \<Rightarrow> string"     \<comment> \<open>\<^verbatim>\<open>base64.encodeByteArray\<close>\<close>
  decodeString :: "string \<Rightarrow> 8 word list option"
    \<comment> \<open>\<^verbatim>\<open>base64.decodeString\<close>; \<open>None\<close> when it throws\<close>

definition decodeBase64 :: "host \<Rightarrow> string \<Rightarrow> jsval result" where
  \<comment> \<open>\<^verbatim>\<open>base64.decodeString(str)\<close>, which gives a \<^verbatim>\<open>Uint8Array\<close>\<close>
  "decodeBase64 h str =
     (case decodeString h str of None \<Rightarrow> Throw (InvalidBase64 str) | Some bytes \<Rightarrow> Ret (JBytes bytes))"

definition numToString :: "host \<Rightarrow> jsnum \<Rightarrow> string" where
  "numToString h n =
     (case n of NaN \<Rightarrow> ''NaN''
      | Num q \<Rightarrow> if of_int \<lfloor>q\<rfloor> = q then showInt \<lfloor>q\<rfloor> else fractionToString h q)"

fun toStr :: "host \<Rightarrow> jsval \<Rightarrow> string" where
  \<comment> \<open>\<^verbatim>\<open>String(v)\<close>, as string concatenation applies it\<close>
  "toStr h Undefined = ''undefined''"
| "toStr h Null = ''null''"
| "toStr h (JBool b) = (if b then ''true'' else ''false'')"
| "toStr h (JNum n) = numToString h n"
| "toStr h (JStr s) = s"
| "toStr h (JBytes bs) = joinWith '','' (map (\<lambda>b. showNat (unat b)) bs)"
| "toStr h (JDate t) = dateToString h t"
| "toStr h (JArr xs) = joinWith '','' (map (\<lambda>x. if x = Undefined \<or> x = Null then [] else toStr h x) xs)"
| "toStr h (JObj kvs) = ''[object Object]''"
| "toStr h (JShared n v) = toStr h v"

fun toNumber :: "host \<Rightarrow> jsval \<Rightarrow> jsnum" where
  \<comment> \<open>\<^verbatim>\<open>Number(v)\<close>, as a comparison with a number and \<^verbatim>\<open>%\<close> apply it\<close>
  "toNumber h Undefined = NaN"
| "toNumber h Null = Num 0"
| "toNumber h (JBool b) = Num (if b then 1 else 0)"
| "toNumber h (JNum n) = n"
| "toNumber h (JStr s) = stringToNumber h s"
| "toNumber h (JDate t) = t"
| "toNumber h (JObj kvs) = NaN"
| "toNumber h (JShared n v) = toNumber h v"
| "toNumber h v = stringToNumber h (toStr h v)"

definition jsParseFloat :: "host \<Rightarrow> jsval \<Rightarrow> jsnum" where
  \<comment> \<open>\<^verbatim>\<open>parseFloat(v)\<close> reads \<^verbatim>\<open>String(v)\<close>; the string of a number reads back as that number\<close>
  "jsParseFloat h v = (case v of JNum n \<Rightarrow> n | _ \<Rightarrow> parseFloatStr h (toStr h v))"

definition newDate :: "host \<Rightarrow> jsval \<Rightarrow> jsnum" where
  \<comment> \<open>the time value of \<^verbatim>\<open>new Date(v)\<close>\<close>
  "newDate h v =
     (case referent v of JDate t \<Rightarrow> t | JStr s \<Rightarrow> dateParse h s
      | JArr xs \<Rightarrow> dateParse h (toStr h v) | JBytes bs \<Rightarrow> dateParse h (toStr h v)
      | JObj kvs \<Rightarrow> dateParse h (toStr h v)
      | _ \<Rightarrow> toNumber h v)"

section \<open>Mappers\<close>

text \<open>
  \<^verbatim>\<open>MapperConstraints\<close>: every bound is optional. A \<^verbatim>\<open>RegExp\<close> is kept as its source text.
\<close>

record mapperConstraints =
  InclusiveMaximum :: "jsnum option"
  ExclusiveMaximum :: "jsnum option"
  InclusiveMinimum :: "jsnum option"
  ExclusiveMinimum :: "jsnum option"
  MaxLength :: "jsnum option"
  MinLength :: "jsnum option"
  Pattern :: "regexp option"
  MaxItems :: "jsnum option"
  MinItems :: "jsnum option"
  UniqueItems :: bool
  MultipleOf :: "jsnum option"

text \<open>
  \<^verbatim>\<open>polymorphicDiscriminator?: string | PolymorphicDiscriminator\<close>. The object form is read
  at \<^verbatim>\<open>clientName\<close> and \<^verbatim>\<open>serializedName\<close> only, and the source tests each for
  \<^verbatim>\<open>null\<close> and \<^verbatim>\<open>undefined\<close>.
\<close>

datatype discriminator =
    DiscString string
  | DiscObject (discSerializedName: "string option") (discClientName: "string option")

text \<open>
  \<^verbatim>\<open>Mapper\<close>: the fields of \<^verbatim>\<open>BaseMapper\<close>, then \<^verbatim>\<open>headerCollectionPrefix\<close> of
  \<^verbatim>\<open>DictionaryMapper\<close>, then the fields of \<^verbatim>\<open>mapper.type\<close> in all its variants, which the source
  tells apart by \<^verbatim>\<open>type.name\<close> at run time. An optional boolean that the source only tests
  for truth is a \<^verbatim>\<open>bool\<close> (unset is false); \<^verbatim>\<open>nullable\<close> is compared with \<^verbatim>\<open>false\<close>, so it
  keeps its three states. \<^verbatim>\<open>defaultValue\<close> unset is \<^verbatim>\<open>Undefined\<close>.
\<close>

datatype mapper = Mapper
  (xmlName: "string option")
  (xmlIsAttribute: bool)
  (xmlElementName: "string option")
  (xmlIsWrapped: bool)
  (readOnly: bool)
  (isConstant: bool)
  (required: bool)
  (nullable: "bool option")
  (serializedName: string)
  (defaultValue: jsval)
  (constraints: "mapperConstraints option")
  (headerCollectionPrefix: "string option")
  (type_name: string)
  (type_element: "mapper option")
  (type_value: "mapper option")
  (type_allowedValues: "jsval list option")
  (type_className: "string option")
  (type_modelProperties: "(string \<times> mapper) list option")
  (type_uberParent: "string option")
  (type_polymorphicDiscriminator: "discriminator option")

text \<open>
  \<^verbatim>\<open>modelMappers\<close>: the mappers by class name, and under the key \<^verbatim>\<open>discriminators\<close> the
  subtype mappers by discriminator index. No class is named \<^verbatim>\<open>discriminators\<close>.
\<close>

record registry =
  classes :: "(string \<times> mapper) list"
  discriminators :: "(string \<times> mapper) list option"

record serializer =
  modelMappers :: "registry option"
  isXML :: bool

section \<open>The constraint validator\<close>

definition failValidation :: "string \<Rightarrow> jsval \<Rightarrow> constraintName \<Rightarrow> jsval \<Rightarrow> unit result" where
  "failValidation objectName v constraintName constraintValue =
     Throw (ConstraintViolated objectName v constraintName constraintValue)"

definition checkBound ::
  "string \<Rightarrow> jsval \<Rightarrow> constraintName \<Rightarrow> jsnum option \<Rightarrow> (jsnum \<Rightarrow> bool) \<Rightarrow> unit result" where
  \<comment> \<open>\<^verbatim>\<open>if (Bound != undefined && violated) { failValidation(name, Bound); }\<close>\<close>
  "checkBound objectName v constraintName bound violated =
     (case bound of
        None \<Rightarrow> Ret ()
      | Some b \<Rightarrow> if violated b then failValidation objectName v constraintName (JNum b) else Ret ())"

definition indexOfDiffers :: "jsval list \<Rightarrow> jsval \<Rightarrow> bool" where
  \<comment> \<open>\<^verbatim>\<open>ar.indexOf(item) !== i\<close>, given the items before position \<^verbatim>\<open>i\<close>: \<^verbatim>\<open>indexOf\<close> compares with
      \<^verbatim>\<open>===\<close>, so it never finds \<^verbatim>\<open>NaN\<close>, and it finds any other item at its own position
      unless an earlier item is the same primitive or the same reference\<close>
  "indexOfDiffers before item =
     (if item = JNum NaN then True
      else list_ex (\<lambda>x. strictEq x item) before)"

fun someRepeated :: "jsval list \<Rightarrow> jsval list \<Rightarrow> bool" where
  "someRepeated before [] = False"
| "someRepeated before (item # rest) =
     (indexOfDiffers before item \<or> someRepeated (before @ [item]) rest)"

definition hasRepeatedItem :: "jsval \<Rightarrow> bool result" where
  \<comment> \<open>\<^verbatim>\<open>value.some((item, i, ar) => ar.indexOf(item) !== i)\<close>: only arrays and typed arrays have
      \<^verbatim>\<open>some\<close>\<close>
  "hasRepeatedItem v =
     (case referent v of
        JArr xs \<Rightarrow> Ret (someRepeated [] xs)
      | JBytes bs \<Rightarrow> Ret (someRepeated [] (map (\<lambda>b. JNum (Num (of_nat (unat b)))) bs))
      | _ \<Rightarrow> Throw TypeError)"

definition checkPattern :: "host \<Rightarrow> string \<Rightarrow> jsval \<Rightarrow> regexp option \<Rightarrow> unit result" where
  \<comment> \<open>\<^verbatim>\<open>if (Pattern && value.match(Pattern) === null)\<close>: only strings have \<^verbatim>\<open>match\<close>\<close>
  "checkPattern h objectName v pattern =
     (case pattern of
        None \<Rightarrow> Ret ()
      | Some re \<Rightarrow>
          (case v of
             JStr s \<Rightarrow> if \<not> regexMatch h s re then failValidation objectName v CPattern (JStr re)
                       else Ret ()
           | _ \<Rightarrow> Throw TypeError))"

definition checkUniqueItems :: "string \<Rightarrow> jsval \<Rightarrow> bool \<Rightarrow> unit result" where
  "checkUniqueItems objectName v uniqueItems =
     (if uniqueItems
      then rbind (hasRepeatedItem v)
             (\<lambda>repeated. if repeated then failValidation objectName v CUniqueItems (JBool True)
                         else Ret ())
      else Ret ())"

definition validateConstraints :: "host \<Rightarrow> mapper \<Rightarrow> jsval \<Rightarrow> string \<Rightarrow> unit result" where
  "validateConstraints h mapper v objectName =
     (case constraints mapper of
        None \<Rightarrow> Ret ()
      | Some c \<Rightarrow>
          if absent v then Ret ()
          else
            andThen (checkBound objectName v CExclusiveMaximum (ExclusiveMaximum c)
                       (\<lambda>b. js_ge (toNumber h v) b))
           (andThen (checkBound objectName v CExclusiveMinimum (ExclusiveMinimum c)
                       (\<lambda>b. js_le (toNumber h v) b))
           (andThen (checkBound objectName v CInclusiveMaximum (InclusiveMaximum c)
                       (\<lambda>b. js_gt (toNumber h v) b))
           (andThen (checkBound objectName v CInclusiveMinimum (InclusiveMinimum c)
                       (\<lambda>b. js_lt (toNumber h v) b))
           (andThen (checkBound objectName v CMaxItems (MaxItems c)
                       (\<lambda>b. js_gt (toNumber h (propOf v ''length'')) b))
           (andThen (checkBound objectName v CMaxLength (MaxLength c)
                       (\<lambda>b. js_gt (toNumber h (propOf v ''length'')) b))
           (andThen (checkBound objectName v CMinItems (MinItems c)
                       (\<lambda>b. js_lt (toNumber h (propOf v ''length'')) b))
           (andThen (checkBound objectName v CMinLength (MinLength c)
                       (\<lambda>b. js_lt (toNumber h (propOf v ''length'')) b))
           (andThen (checkBound objectName v CMultipleOf (MultipleOf c)
                       (\<lambda>b. js_rem (toNumber h v) b \<noteq> Num 0))
           (andThen (checkPattern h objectName v (Pattern c))
                    (checkUniqueItems objectName v (UniqueItems c))))))))))))"

section \<open>Strings, names and base64url\<close>

fun trimEndLen :: "string \<Rightarrow> char \<Rightarrow> nat \<Rightarrow> nat" where
  \<comment> \<open>the loop of \<^verbatim>\<open>trimEnd\<close>: \<^verbatim>\<open>while ((len - 1) >= 0 && str[len - 1] === ch) --len\<close>\<close>
  "trimEndLen str ch 0 = 0"
| "trimEndLen str ch (Suc l) = (if str ! l = ch then trimEndLen str ch l else Suc l)"

definition trimEnd :: "string \<Rightarrow> char \<Rightarrow> string" where
  "trimEnd str ch = take (trimEndLen str ch (length str)) str"

definition replaceAll :: "char \<Rightarrow> char \<Rightarrow> string \<Rightarrow> string" where
  \<comment> \<open>\<^verbatim>\<open>str.replace(/a/g, "b")\<close> for single characters\<close>
  "replaceAll a b str = map (\<lambda>c. if c = a then b else c) str"

definition bufferToBase64Url :: "host \<Rightarrow> jsval \<Rightarrow> jsval result" where
  "bufferToBase64Url h buffer =
     (if \<not> truthy buffer then Ret Undefined
      else (case referent buffer of
              JBytes bs \<Rightarrow>
                (let str = encodeByteArray h bs
                 in Ret (JStr (replaceAll (CHR ''/'') (CHR ''_'')
                                (replaceAll (CHR ''+'') (CHR ''-'') (trimEnd str (CHR ''=''))))))
            | _ \<Rightarrow> Throw Base64UrlInputNotBytes))"

definition base64UrlToByteArray :: "host \<Rightarrow> jsval \<Rightarrow> jsval result" where
  "base64UrlToByteArray h str =
     (if \<not> truthy str then Ret Undefined
      else (case str of
              JStr s \<Rightarrow>
                decodeBase64 h (replaceAll (CHR ''_'') (CHR ''/'') (replaceAll (CHR ''-'') (CHR ''+'') s))
            | _ \<Rightarrow> Throw Base64UrlInputNotString))"

fun splitDot :: "string \<Rightarrow> string list" where
  \<comment> \<open>\<^verbatim>\<open>prop.split(".")\<close>\<close>
  "splitDot [] = [[]]"
| "splitDot (c # cs) =
     (if c = CHR ''.'' then [] # splitDot cs
      else (case splitDot cs of w # ws \<Rightarrow> (c # w) # ws | [] \<Rightarrow> [[c]]))"

fun joinSubwords :: "string \<Rightarrow> string list \<Rightarrow> string list" where
  \<comment> \<open>the loop of \<^verbatim>\<open>splitSerializeName\<close>, from the \<^verbatim>\<open>partialclass\<close> so far; the classes it
      pushes, in order\<close>
  "joinSubwords partialclass [] = []"
| "joinSubwords partialclass (item # subwords) =
     (if item \<noteq> [] \<and> last item = CHR 0x5C
      then joinSubwords (partialclass @ butlast item @ ''.'') subwords
      else (partialclass @ item) # joinSubwords [] subwords)"

definition splitSerializeName :: "string \<Rightarrow> string list" where
  "splitSerializeName prop = joinSubwords [] (splitDot prop)"

section \<open>Serializing the leaf types\<close>

fun isString :: "jsval \<Rightarrow> bool" where
  \<comment> \<open>\<^verbatim>\<open>typeof value.valueOf() === "string"\<close>\<close>
  "isString (JStr s) = True"
| "isString _ = False"

definition serializeBasicTypes :: "host \<Rightarrow> string \<Rightarrow> string \<Rightarrow> jsval \<Rightarrow> jsval result" where
  "serializeBasicTypes h typeName objectName v =
     (if v \<noteq> Null \<and> v \<noteq> Undefined then
        if typeNameIs typeName [''Number''] then
          (if js_typeof v \<noteq> ''number'' then Throw (MustBeOfType objectName ''number'') else Ret v)
        else if typeNameIs typeName [''String''] then
          (if \<not> isString v then Throw (MustBeOfType objectName ''string'') else Ret v)
        else if typeNameIs typeName [''Uuid''] then
          (if \<not> (case v of JStr s \<Rightarrow> isValidUuid h s | _ \<Rightarrow> False)
           then Throw (MustBeOfType objectName ''string and a valid uuid'') else Ret v)
        else if typeNameIs typeName [''Boolean''] then
          (if js_typeof v \<noteq> ''boolean'' then Throw (MustBeOfType objectName ''boolean'') else Ret v)
        else if typeNameIs typeName [''Stream''] then
          (if js_typeof v \<noteq> ''string'' \<and> \<not> (case referent v of JBytes bs \<Rightarrow> True | _ \<Rightarrow> False)
           then Throw (MustBeOfType objectName ''stream'') else Ret v)
        else Ret v
      else Ret v)"

definition enumItemMatches :: "jsval \<Rightarrow> jsval \<Rightarrow> bool result" where
  \<comment> \<open>the callback of \<^verbatim>\<open>allowedValues.some\<close> in \<^verbatim>\<open>serializeEnumType\<close>\<close>
  "enumItemMatches item v =
     (if absent item then Throw TypeError
      else (case item of
              JStr s \<Rightarrow> (case v of JStr t \<Rightarrow> Ret (toLowerCase s = toLowerCase t)
                         | _ \<Rightarrow> Throw TypeError)
            | _ \<Rightarrow> Ret (strictEq item v)))"

fun enumSome :: "jsval list \<Rightarrow> jsval \<Rightarrow> bool result" where
  "enumSome [] v = Ret False"
| "enumSome (item # items) v =
     rbind (enumItemMatches item v) (\<lambda>found. if found then Ret True else enumSome items v)"

definition serializeEnumType :: "string \<Rightarrow> jsval list option \<Rightarrow> jsval \<Rightarrow> jsval result" where
  "serializeEnumType objectName allowedValues v =
     (case allowedValues of
        None \<Rightarrow> Throw (NoAllowedValues objectName)
      | Some items \<Rightarrow>
          rbind (enumSome items v)
            (\<lambda>isPresent. if \<not> isPresent then Throw (NotAValidEnumValue v objectName) else Ret v))"

definition serializeByteArrayType :: "host \<Rightarrow> string \<Rightarrow> jsval \<Rightarrow> jsval result" where
  "serializeByteArrayType h objectName v =
     (if \<not> absent v then
        (case referent v of
           JBytes bs \<Rightarrow> Ret (JStr (encodeByteArray h bs))
         | _ \<Rightarrow> Throw (MustBeOfType objectName ''Uint8Array''))
      else Ret v)"

definition serializeBase64UrlType :: "host \<Rightarrow> string \<Rightarrow> jsval \<Rightarrow> jsval result" where
  "serializeBase64UrlType h objectName v =
     (if \<not> absent v then
        (case referent v of
           JBytes bs \<Rightarrow> bufferToBase64Url h v
         | _ \<Rightarrow> Throw (MustBeOfType objectName ''Uint8Array''))
      else Ret v)"

definition isDateOrDateString :: "host \<Rightarrow> jsval \<Rightarrow> bool" where
  \<comment> \<open>\<^verbatim>\<open>value instanceof Date || (typeof value.valueOf() === "string" && !isNaN(Date.parse(value)))\<close>\<close>
  "isDateOrDateString h v =
     (case referent v of JDate t \<Rightarrow> True | JStr s \<Rightarrow> dateParse h s \<noteq> NaN | _ \<Rightarrow> False)"

definition isoStringOf :: "host \<Rightarrow> jsval \<Rightarrow> string result" where
  \<comment> \<open>\<^verbatim>\<open>(value instanceof Date) ? value.toISOString() : new Date(value).toISOString()\<close>\<close>
  "isoStringOf h v =
     (case newDate h v of NaN \<Rightarrow> Throw RangeError | Num t \<Rightarrow> Ret (toISOString h t))"

definition dateToUnixTime :: "host \<Rightarrow> jsval \<Rightarrow> jsval result" where
  "dateToUnixTime h d =
     (if \<not> truthy d then Ret Undefined
      else (case referent d of
              JStr s \<Rightarrow> Ret (JNum (case dateParse h s of NaN \<Rightarrow> NaN
                                     | Num t \<Rightarrow> Num (of_int \<lfloor>t / 1000\<rfloor>)))
            | JDate n \<Rightarrow> Ret (JNum (case n of NaN \<Rightarrow> NaN | Num t \<Rightarrow> Num (of_int \<lfloor>t / 1000\<rfloor>)))
            | _ \<Rightarrow> Throw TypeError))"

definition unixTimeToDate :: "host \<Rightarrow> jsval \<Rightarrow> jsval" where
  "unixTimeToDate h n =
     (if \<not> truthy n then Undefined
      else JDate (case toNumber h n of NaN \<Rightarrow> NaN | Num x \<Rightarrow> Num (x * 1000)))"

definition serializeDateTypes :: "host \<Rightarrow> string \<Rightarrow> jsval \<Rightarrow> string \<Rightarrow> jsval result" where
  "serializeDateTypes h typeName v objectName =
     (if \<not> absent v then
        if typeNameIs typeName [''Date''] then
          (if \<not> isDateOrDateString h v then Throw (MustBeOfType objectName ''Date'')
           else rbind (isoStringOf h v) (\<lambda>iso. Ret (JStr (take 10 iso))))
        else if typeNameIs typeName [''DateTime''] then
          (if \<not> isDateOrDateString h v then Throw (MustBeOfType objectName ''DateTime'')
           else rbind (isoStringOf h v) (\<lambda>iso. Ret (JStr iso)))
        else if typeNameIs typeName [''DateTimeRfc1123''] then
          (if \<not> isDateOrDateString h v then Throw (MustBeOfType objectName ''DateTimeRfc1123'')
           else Ret (JStr (toUTCString h (newDate h v))))
        else if typeNameIs typeName [''UnixTime''] then
          (if \<not> isDateOrDateString h v then Throw (MustBeOfType objectName ''UnixTime'')
           else dateToUnixTime h v)
        else if typeNameIs typeName [''TimeSpan''] then
          (if \<not> isDuration h v then Throw (MustBeOfType objectName ''TimeSpan'') else Ret v)
        else Ret v
      else Ret v)"

section \<open>Polymorphic mappers\<close>

definition lookupDiscriminator :: "serializer \<Rightarrow> string \<Rightarrow> mapper \<Rightarrow> mapper result" where
  \<comment> \<open>\<^verbatim>\<open>if (serializer.modelMappers && serializer.modelMappers.discriminators[index])
        mapper = serializer.modelMappers.discriminators[index]\<close>\<close>
  "lookupDiscriminator ser indexDiscriminator mapper =
     (case modelMappers ser of
        None \<Rightarrow> Ret mapper
      | Some reg \<Rightarrow>
          (case discriminators reg of
             None \<Rightarrow> Throw TypeError
           | Some table \<Rightarrow>
               (case map_of table indexDiscriminator of
                  Some subtype \<Rightarrow> Ret subtype
                | None \<Rightarrow> Ret mapper)))"

definition discriminatorIndex :: "host \<Rightarrow> string option \<Rightarrow> jsval \<Rightarrow> string" where
  \<comment> \<open>\<^verbatim>\<open>value === uberParent ? value : uberParent + "." + value\<close>\<close>
  "discriminatorIndex h uberParent v =
     (if (case uberParent of Some u \<Rightarrow> v = JStr u | None \<Rightarrow> False) then toStr h v
      else (case uberParent of Some u \<Rightarrow> u | None \<Rightarrow> ''undefined'') @ ''.'' @ toStr h v)"

definition getPolymorphicMapperStringVersion ::
  "host \<Rightarrow> serializer \<Rightarrow> mapper \<Rightarrow> jsval \<Rightarrow> string \<Rightarrow> mapper result" where
  "getPolymorphicMapperStringVersion h ser mapper object objectName =
     (case type_polymorphicDiscriminator mapper of
        None \<Rightarrow> Ret mapper
      | Some (DiscObject sn cn) \<Rightarrow> Unmodelled
      | Some (DiscString discriminatorAsString) \<Rightarrow>
          if absent object then Throw (DiscriminatorObjectMissing objectName discriminatorAsString)
          else if absent (propOf object discriminatorAsString)
          then Throw (DiscriminatorFieldMissing discriminatorAsString objectName)
          else lookupDiscriminator ser
                 (discriminatorIndex h (type_uberParent mapper) (propOf object discriminatorAsString))
                 mapper)"

definition getPolymorphicMapperObjectVersion ::
  "host \<Rightarrow> serializer \<Rightarrow> mapper \<Rightarrow> jsval \<Rightarrow> string \<Rightarrow> string \<Rightarrow> mapper result" where
  "getPolymorphicMapperObjectVersion h ser mapper object objectName mode =
     (if mode \<noteq> ''serialize'' \<and> mode \<noteq> ''deserialize'' then Throw (InvalidMode mode objectName)
      else
        (case type_polymorphicDiscriminator mapper of
           None \<Rightarrow> Ret mapper
         | Some (DiscString s) \<Rightarrow> Unmodelled
         | Some (DiscObject sn cn) \<Rightarrow>
             (case (if mode = ''serialize'' then cn else sn) of
                None \<Rightarrow> Ret mapper
              | Some field \<Rightarrow>
                  if absent object then Throw (DiscriminatorObjectMissing objectName field)
                  else if absent (propOf object field)
                  then Throw (DiscriminatorFieldMissing field objectName)
                  else lookupDiscriminator ser
                         (discriminatorIndex h (type_uberParent mapper) (propOf object field))
                         mapper)))"

fun declaresDiscriminator :: "discriminator option \<Rightarrow> bool" where
  \<comment> \<open>\<^verbatim>\<open>if (mapper.type.polymorphicDiscriminator)\<close>: the empty string is false\<close>
  "declaresDiscriminator None = False"
| "declaresDiscriminator (Some (DiscString s)) = (s \<noteq> [])"
| "declaresDiscriminator (Some (DiscObject sn cn)) = True"

definition getPolymorphicMapper ::
  "host \<Rightarrow> serializer \<Rightarrow> mapper \<Rightarrow> jsval \<Rightarrow> string \<Rightarrow> string \<Rightarrow> mapper result" where
  "getPolymorphicMapper h ser mapper object objectName mode =
     (if declaresDiscriminator (type_polymorphicDiscriminator mapper) then
        (case type_polymorphicDiscriminator mapper of
           Some (DiscString s) \<Rightarrow> getPolymorphicMapperStringVersion h ser mapper object objectName
         | _ \<Rightarrow> getPolymorphicMapperObjectVersion h ser mapper object objectName mode)
      else Ret mapper)"

section \<open>Serializing sequences, dictionaries and composites\<close>

text \<open>
  The functions of this section call back into \<^verbatim>\<open>serializer.serialize\<close>. Here the callback is
  the parameter \<open>rec\<close>; \<open>serialize\<close> below passes itself, with one unit of fuel less.
\<close>

fun mapResult :: "('a \<Rightarrow> 'b result) \<Rightarrow> 'a list \<Rightarrow> 'b list result" where
  "mapResult f [] = Ret []"
| "mapResult f (x # xs) = rbind (f x) (\<lambda>y. rbind (mapResult f xs) (\<lambda>ys. Ret (y # ys)))"

definition serializeSequenceType ::
  "(mapper \<Rightarrow> jsval \<Rightarrow> string \<Rightarrow> jsval result) \<Rightarrow> mapper \<Rightarrow> jsval \<Rightarrow> string \<Rightarrow> jsval result" where
  "serializeSequenceType rec mapper object objectName =
     (case referent object of
        JArr xs \<Rightarrow>
          (case type_element mapper of
             None \<Rightarrow> Throw (ElementMetadataMissing objectName)
           | Some elementType \<Rightarrow>
               rbind (mapResult (\<lambda>x. rec elementType x objectName) xs) (\<lambda>tempArray. Ret (JArr tempArray)))
      | _ \<Rightarrow> Throw (MustBeOfType objectName ''Array''))"

fun serializeDictionaryEntries ::
  "(mapper \<Rightarrow> jsval \<Rightarrow> string \<Rightarrow> jsval result) \<Rightarrow> mapper \<Rightarrow> jsval \<Rightarrow> string \<Rightarrow>
   (string \<times> jsval) list \<Rightarrow> string list \<Rightarrow> jsval result" where
  "serializeDictionaryEntries rec valueType object objectName tempDictionary [] =
     Ret (JObj tempDictionary)"
| "serializeDictionaryEntries rec valueType object objectName tempDictionary (key # keys) =
     rbind (rec valueType (propOf object key) (objectName @ ''.'' @ key))
       (\<lambda>v. serializeDictionaryEntries rec valueType object objectName
               (objSet tempDictionary key v) keys)"

definition serializeDictionaryType ::
  "(mapper \<Rightarrow> jsval \<Rightarrow> string \<Rightarrow> jsval result) \<Rightarrow> mapper \<Rightarrow> jsval \<Rightarrow> string \<Rightarrow> jsval result" where
  "serializeDictionaryType rec mapper object objectName =
     (if js_typeof object \<noteq> ''object'' then Throw (MustBeOfType objectName ''object'')
      else (case type_value mapper of
              None \<Rightarrow> Throw (ValueMetadataMissing objectName)
            | Some valueType \<Rightarrow>
                rbind (ownKeys object)
                  (serializeDictionaryEntries rec valueType object objectName [])))"

definition resolveModelProperties ::
  "serializer \<Rightarrow> mapper \<Rightarrow> string \<Rightarrow> (string \<times> mapper) list result" where
  \<comment> \<open>\<^verbatim>\<open>mapper.type.modelProperties\<close>, or those of the registered class \<^verbatim>\<open>mapper.type.className\<close>\<close>
  "resolveModelProperties ser mapper objectName =
     (case type_modelProperties mapper of
        Some modelProps \<Rightarrow> Ret modelProps
      | None \<Rightarrow>
          (case type_className mapper of
             None \<Rightarrow> Throw (ClassNameMissing objectName)
           | Some className \<Rightarrow>
               if className = [] then Throw (ClassNameMissing objectName)
               else (case modelMappers ser of
                       None \<Rightarrow> Throw TypeError
                     | Some reg \<Rightarrow>
                         (case map_of (classes reg) className of
                            None \<Rightarrow> Throw (ModelMapperMissing className)
                          | Some modelMapper \<Rightarrow>
                              (case type_modelProperties modelMapper of
                                 None \<Rightarrow> Throw (ModelPropertiesMissing className objectName)
                               | Some modelProps \<Rightarrow> Ret modelProps)))))"

definition orElse :: "string option \<Rightarrow> string option \<Rightarrow> string option" where
  \<comment> \<open>\<^verbatim>\<open>a || b\<close> on optional strings: the empty string is false\<close>
  "orElse a b = (case a of Some s \<Rightarrow> if s = [] then b else Some s | None \<Rightarrow> b)"

definition keyOf :: "string option \<Rightarrow> string" where
  \<comment> \<open>an optional string used as a property key: \<^verbatim>\<open>undefined\<close> is the key \<^verbatim>\<open>"undefined"\<close>\<close>
  "keyOf k = (case k of Some s \<Rightarrow> s | None \<Rightarrow> ''undefined'')"

definition propertyObjectNameOf :: "mapper \<Rightarrow> string \<Rightarrow> string" where
  \<comment> \<open>\<^verbatim>\<open>propertyMapper.serializedName !== "" ? objectName + "." + propertyMapper.serializedName
        : objectName\<close>, the name a property goes by in error messages\<close>
  "propertyObjectNameOf propertyMapper objectName =
     (if serializedName propertyMapper \<noteq> []
      then objectName @ ''.'' @ serializedName propertyMapper else objectName)"

text \<open>
  In the source \<^verbatim>\<open>parentObject\<close> is a reference into the tree under \<^verbatim>\<open>payload\<close>, and a write
  through it changes the payload. Here a step takes the value \<^verbatim>\<open>parentObject\<close> refers to and
  returns that value as it is after the rest of the iteration; the caller stores it back under
  the key it was read from. Only an object can have changed: on \<^verbatim>\<open>undefined\<close>, \<^verbatim>\<open>null\<close> and the
  primitives a write throws, so a value that comes back as it went is not stored again.
\<close>

definition placeProperty :: "mapper \<Rightarrow> string option \<Rightarrow> jsval \<Rightarrow> jsval \<Rightarrow> jsval result" where
  \<comment> \<open>lines 486 to 498: the \<^verbatim>\<open>serializedValue\<close> is stored in \<^verbatim>\<open>parentObject\<close>\<close>
  "placeProperty propertyMapper propName parentObject serializedValue =
     (case propName of
        None \<Rightarrow> Ret parentObject
      | Some name \<Rightarrow>
          if serializedValue = Undefined then Ret parentObject
          else if xmlIsAttribute propertyMapper then
            (let attrs = (if truthy (propOf parentObject ''$'') then propOf parentObject ''$''
                          else JObj [])
             in rbind (setProp parentObject ''$'' attrs)
                  (\<lambda>parentObject1. rbind (setProp attrs name serializedValue)
                     (\<lambda>attrs1. setProp parentObject1 ''$'' attrs1)))
          else if xmlIsWrapped propertyMapper then
            setProp parentObject name (JObj [(keyOf (xmlElementName propertyMapper), serializedValue)])
          else setProp parentObject name serializedValue)"

definition serializeInto ::
  "(mapper \<Rightarrow> jsval \<Rightarrow> string \<Rightarrow> jsval result) \<Rightarrow> mapper \<Rightarrow> jsval \<Rightarrow> string \<Rightarrow>
   string option \<Rightarrow> jsval \<Rightarrow> jsval result" where
  \<comment> \<open>lines 475 to 499: the rest of an iteration once \<^verbatim>\<open>propName\<close> and \<^verbatim>\<open>parentObject\<close> are set\<close>
  "serializeInto rec propertyMapper propertyValue objectName propName parentObject =
     (if readOnly propertyMapper then Ret parentObject
      else if \<not> absent parentObject then
        rbind (rec propertyMapper propertyValue (propertyObjectNameOf propertyMapper objectName))
          (placeProperty propertyMapper propName parentObject)
      else Ret parentObject)"

fun walkPaths :: "bool \<Rightarrow> (jsval \<Rightarrow> jsval result) \<Rightarrow> jsval \<Rightarrow> string list \<Rightarrow> jsval result" where
  \<comment> \<open>lines 466 to 472, then \<open>rest\<close> on the \<^verbatim>\<open>parentObject\<close> reached; \<open>present\<close> is
      \<^verbatim>\<open>object[key] != undefined\<close>\<close>
  "walkPaths present rest parentObject [] = rest parentObject"
| "walkPaths present rest parentObject (pathName # paths) =
     rbind (getProp parentObject pathName)
       (\<lambda>childObject.
          rbind (if absent childObject \<and> present then setProp parentObject pathName (JObj [])
                 else Ret parentObject)
            (\<lambda>parentObject1.
               (let next = propOf parentObject1 pathName
                in rbind (walkPaths present rest next paths)
                     (\<lambda>next1. if next1 = next then Ret parentObject1
                              else setProp parentObject1 pathName next1))))"

definition serializeProperty ::
  "(mapper \<Rightarrow> jsval \<Rightarrow> string \<Rightarrow> jsval result) \<Rightarrow> serializer \<Rightarrow> jsval \<Rightarrow> string \<Rightarrow>
   jsval \<Rightarrow> string \<Rightarrow> mapper \<Rightarrow> jsval result" where
  \<comment> \<open>one iteration of the loop over \<^verbatim>\<open>Object.keys(modelProps)\<close>: the payload after it\<close>
  "serializeProperty rec ser object objectName payload key propertyMapper =
     (if isXML ser then
        serializeInto rec propertyMapper (propOf object key) objectName
          (if xmlIsWrapped propertyMapper then xmlName propertyMapper
           else orElse (xmlElementName propertyMapper) (xmlName propertyMapper))
          payload
      else
        (let paths = splitSerializeName (serializedName propertyMapper)
         in walkPaths (\<not> absent (propOf object key))
              (serializeInto rec propertyMapper (propOf object key) objectName
                 (if paths = [] then None else Some (last paths)))
              payload (butlast paths)))"

fun serializeProperties ::
  "(mapper \<Rightarrow> jsval \<Rightarrow> string \<Rightarrow> jsval result) \<Rightarrow> serializer \<Rightarrow> jsval \<Rightarrow> string \<Rightarrow>
   jsval \<Rightarrow> (string \<times> mapper) list \<Rightarrow> jsval result" where
  "serializeProperties rec ser object objectName payload [] = Ret payload"
| "serializeProperties rec ser object objectName payload ((key, propertyMapper) # modelProps) =
     rbind (serializeProperty rec ser object objectName payload key propertyMapper)
       (\<lambda>payload1. serializeProperties rec ser object objectName payload1 modelProps)"

definition serializeCompositeType ::
  "(mapper \<Rightarrow> jsval \<Rightarrow> string \<Rightarrow> jsval result) \<Rightarrow> host \<Rightarrow> serializer \<Rightarrow> mapper \<Rightarrow> jsval \<Rightarrow>
   string \<Rightarrow> jsval result" where
  "serializeCompositeType rec h ser mapper0 object objectName =
     rbind (if declaresDiscriminator (type_polymorphicDiscriminator mapper0)
            then getPolymorphicMapper h ser mapper0 object objectName ''serialize''
            else Ret mapper0)
       (\<lambda>mapper.
          if \<not> absent object then
            rbind (resolveModelProperties ser mapper objectName)
              (serializeProperties rec ser object objectName (JObj []))
          else Ret object)"

section \<open>serialize\<close>

definition resolveObjectName :: "mapper \<Rightarrow> string \<Rightarrow> string" where
  \<comment> \<open>\<^verbatim>\<open>if (!objectName) { objectName = mapper.serializedName; }\<close>: an \<^verbatim>\<open>objectName\<close> that is not
      given is the empty string here, which is as false as \<^verbatim>\<open>undefined\<close>\<close>
  "resolveObjectName mapper objectName = (if objectName = [] then serializedName mapper else objectName)"

definition withDefault :: "mapper \<Rightarrow> jsval \<Rightarrow> jsval" where
  \<comment> \<open>lines 85 to 87: the default value stands in for an absent object\<close>
  "withDefault mapper object =
     (if absent object \<and> (\<not> absent (defaultValue mapper) \<or> isConstant mapper)
      then defaultValue mapper else object)"

definition serializePresent ::
  "(mapper \<Rightarrow> jsval \<Rightarrow> string \<Rightarrow> jsval result) \<Rightarrow> host \<Rightarrow> serializer \<Rightarrow> mapper \<Rightarrow> jsval \<Rightarrow>
   string \<Rightarrow> jsval result" where
  \<comment> \<open>lines 114 to 135: the \<^verbatim>\<open>else\<close> branch of \<^verbatim>\<open>if (object == undefined)\<close>; a type name that
      matches nothing leaves the initial payload, \<^verbatim>\<open>{}\<close>\<close>
  "serializePresent rec h ser mapper object objectName =
     (let mapperType = type_name mapper
      in andThen (validateConstraints h mapper object objectName)
           (if typeNameIs mapperType [''any''] then Ret object
            else if typeNameIs mapperType
                      [''Number'', ''String'', ''Boolean'', ''Object'', ''Stream'', ''Uuid'']
            then serializeBasicTypes h mapperType objectName object
            else if typeNameIs mapperType [''Enum'']
            then serializeEnumType objectName (type_allowedValues mapper) object
            else if typeNameIs mapperType
                      [''Date'', ''DateTime'', ''TimeSpan'', ''DateTimeRfc1123'', ''UnixTime'']
            then serializeDateTypes h mapperType object objectName
            else if typeNameIs mapperType [''ByteArray'']
            then serializeByteArrayType h objectName object
            else if typeNameIs mapperType [''Base64Url'']
            then serializeBase64UrlType h objectName object
            else if typeNameIs mapperType [''Sequence'']
            then serializeSequenceType rec mapper object objectName
            else if typeNameIs mapperType [''Dictionary'']
            then serializeDictionaryType rec mapper object objectName
            else if typeNameIs mapperType [''Composite'']
            then serializeCompositeType rec h ser mapper object objectName
            else Ret (JObj [])))"

definition serializeBody ::
  "(mapper \<Rightarrow> jsval \<Rightarrow> string \<Rightarrow> jsval result) \<Rightarrow> host \<Rightarrow> serializer \<Rightarrow> mapper \<Rightarrow> jsval \<Rightarrow>
   string \<Rightarrow> jsval result" where
  \<comment> \<open>the body of \<^verbatim>\<open>Serializer.serialize\<close>; \<open>rec\<close> is \<^verbatim>\<open>this.serialize\<close>\<close>
  "serializeBody rec h ser mapper object0 objectName0 =
     (let objectName = resolveObjectName mapper objectName0;
          object = withDefault mapper object0
      in if required mapper \<and> nullable mapper = Some True \<and> object = Undefined
         then Throw (CannotBeUndefined objectName)
         else if required mapper \<and> nullable mapper \<noteq> Some True \<and> absent object
         then Throw (CannotBeNullOrUndefined objectName)
         else if \<not> required mapper \<and> nullable mapper = Some False \<and> object = Null
         then Throw (CannotBeNull objectName)
         else if absent object then Ret object
         else serializePresent rec h ser mapper object objectName)"

text \<open>
  \<^verbatim>\<open>Serializer.serialize\<close>. The fuel bounds the depth of the calls of \<^verbatim>\<open>serialize\<close> inside
  one another; a call that needs more returns \<open>OutOfFuel\<close>.
\<close>

fun serialize :: "nat \<Rightarrow> host \<Rightarrow> serializer \<Rightarrow> mapper \<Rightarrow> jsval \<Rightarrow> string \<Rightarrow> jsval result" where
  "serialize 0 h ser mapper object objectName = OutOfFuel"
| "serialize (Suc fuel) h ser mapper object objectName =
     serializeBody (serialize fuel h ser) h ser mapper object objectName"

section \<open>Deserializing sequences, dictionaries and composites\<close>

definition deserializeSequenceType ::
  "(mapper \<Rightarrow> jsval \<Rightarrow> string \<Rightarrow> jsval result) \<Rightarrow> mapper \<Rightarrow> jsval \<Rightarrow> string \<Rightarrow> jsval result" where
  "deserializeSequenceType rec mapper responseBody objectName =
     (case type_element mapper of
        None \<Rightarrow> Throw (ElementMetadataMissing objectName)
      | Some element \<Rightarrow>
          if truthy responseBody then
            rbind (mapResult (\<lambda>x. rec element x objectName)
                     (case referent responseBody of JArr xs \<Rightarrow> xs | _ \<Rightarrow> [responseBody]))
              (\<lambda>tempArray. Ret (JArr tempArray))
          else Ret responseBody)"

fun deserializeDictionaryEntries ::
  "(mapper \<Rightarrow> jsval \<Rightarrow> string \<Rightarrow> jsval result) \<Rightarrow> mapper \<Rightarrow> jsval \<Rightarrow> string \<Rightarrow>
   (string \<times> jsval) list \<Rightarrow> string list \<Rightarrow> jsval result" where
  "deserializeDictionaryEntries rec valueType responseBody objectName tempDictionary [] =
     Ret (JObj tempDictionary)"
| "deserializeDictionaryEntries rec valueType responseBody objectName tempDictionary (key # keys) =
     rbind (rec valueType (propOf responseBody key) objectName)
       (\<lambda>v. deserializeDictionaryEntries rec valueType responseBody objectName
               (objSet tempDictionary key v) keys)"

definition deserializeDictionaryType ::
  "(mapper \<Rightarrow> jsval \<Rightarrow> string \<Rightarrow> jsval result) \<Rightarrow> mapper \<Rightarrow> jsval \<Rightarrow> string \<Rightarrow> jsval result" where
  "deserializeDictionaryType rec mapper responseBody objectName =
     (case type_value mapper of
        None \<Rightarrow> Throw (ValueMetadataMissing objectName)
      | Some valueType \<Rightarrow>
          if truthy responseBody then
            rbind (ownKeys responseBody)
              (deserializeDictionaryEntries rec valueType responseBody objectName [])
          else Ret responseBody)"

fun walkResponse :: "jsval \<Rightarrow> string list \<Rightarrow> jsval" where
  \<comment> \<open>lines 575 to 581: \<^verbatim>\<open>for (const item of paths) { if (!res) break; res = res[item]; }\<close>\<close>
  "walkResponse res [] = res"
| "walkResponse res (item # paths) =
     (if \<not> truthy res then res else walkResponse (propOf res item) paths)"

definition startsWith :: "string \<Rightarrow> string \<Rightarrow> bool" where
  "startsWith s prefix = (take (length prefix) s = prefix)"

fun collectHeaders ::
  "(mapper \<Rightarrow> jsval \<Rightarrow> string \<Rightarrow> jsval result) \<Rightarrow> serializer \<Rightarrow> mapper option \<Rightarrow> jsval \<Rightarrow>
   string \<Rightarrow> string \<Rightarrow> (string \<times> jsval) list \<Rightarrow> string list \<Rightarrow> jsval result" where
  \<comment> \<open>lines 548 to 553. A missing \<^verbatim>\<open>type.value\<close> is an \<^verbatim>\<open>undefined\<close> mapper: \<^verbatim>\<open>deserialize\<close>
      returns an absent value before it reads \<^verbatim>\<open>mapper.type\<close>, unless it is in XML mode\<close>
  "collectHeaders rec ser valueType responseBody propertyObjectName prefix dictionary [] =
     Ret (JObj dictionary)"
| "collectHeaders rec ser valueType responseBody propertyObjectName prefix dictionary (headerKey # keys) =
     (if startsWith headerKey prefix then
        rbind (case valueType of
                 Some vt \<Rightarrow> rec vt (propOf responseBody headerKey) propertyObjectName
               | None \<Rightarrow> if absent (propOf responseBody headerKey) \<and> \<not> isXML ser
                         then Ret (propOf responseBody headerKey) else Throw TypeError)
          (\<lambda>v. collectHeaders rec ser valueType responseBody propertyObjectName prefix
                  (objSet dictionary (drop (length prefix) headerKey) v) keys)
      else collectHeaders rec ser valueType responseBody propertyObjectName prefix dictionary keys)"

definition deserializeProperty ::
  "(mapper \<Rightarrow> jsval \<Rightarrow> string \<Rightarrow> jsval result) \<Rightarrow> serializer \<Rightarrow> jsval \<Rightarrow> string \<Rightarrow>
   jsval \<Rightarrow> string \<Rightarrow> mapper \<Rightarrow> jsval result" where
  \<comment> \<open>one iteration of the loop over \<^verbatim>\<open>Object.keys(modelProps)\<close>: the instance after it\<close>
  "deserializeProperty rec ser responseBody objectName instance key propertyMapper =
     (let propertyObjectName = propertyObjectNameOf propertyMapper objectName;
          headerPrefix = (case headerCollectionPrefix propertyMapper of Some p \<Rightarrow> p | None \<Rightarrow> [])
      in if headerPrefix \<noteq> []
         then
           rbind (ownKeys responseBody)
             (\<lambda>keys. rbind (collectHeaders rec ser (type_value propertyMapper) responseBody
                              propertyObjectName headerPrefix [] keys)
                        (setProp instance key))
         else if isXML ser then
           (if xmlIsAttribute propertyMapper \<and> truthy (propOf responseBody ''$'') then
              rbind (rec propertyMapper
                       (propOf (propOf responseBody ''$'') (keyOf (xmlName propertyMapper)))
                       propertyObjectName)
                (setProp instance key)
            else
              (let propertyName = orElse (xmlElementName propertyMapper) (xmlName propertyMapper);
                   wrapper = propOf responseBody (keyOf (xmlName propertyMapper));
                   inner = (if truthy wrapper
                            then propOf wrapper (keyOf (xmlElementName propertyMapper)) else wrapper);
                   unwrappedProperty =
                     (if xmlIsWrapped propertyMapper
                      then (if inner = Undefined then JArr [] else inner)
                      else propOf responseBody (keyOf propertyName))
               in rbind (rec propertyMapper unwrappedProperty propertyObjectName)
                    (setProp instance key)))
         else
           (let paths = splitSerializeName (serializedName propertyMapper);
                propertyInstance = walkResponse responseBody paths
            in if isArray (propOf responseBody key) \<and> serializedName propertyMapper = []
               then rec propertyMapper (propOf responseBody key) propertyObjectName
               else if propertyInstance \<noteq> Undefined
               then rbind (rec propertyMapper propertyInstance propertyObjectName)
                      (setProp instance key)
               else Ret instance))"

fun deserializeProperties ::
  "(mapper \<Rightarrow> jsval \<Rightarrow> string \<Rightarrow> jsval result) \<Rightarrow> serializer \<Rightarrow> jsval \<Rightarrow> string \<Rightarrow>
   jsval \<Rightarrow> (string \<times> mapper) list \<Rightarrow> jsval result" where
  "deserializeProperties rec ser responseBody objectName instance [] = Ret instance"
| "deserializeProperties rec ser responseBody objectName instance ((key, propertyMapper) # modelProps) =
     rbind (deserializeProperty rec ser responseBody objectName instance key propertyMapper)
       (\<lambda>instance1. deserializeProperties rec ser responseBody objectName instance1 modelProps)"

definition deserializeCompositeType ::
  "(mapper \<Rightarrow> jsval \<Rightarrow> string \<Rightarrow> jsval result) \<Rightarrow> host \<Rightarrow> serializer \<Rightarrow> mapper \<Rightarrow> jsval \<Rightarrow>
   string \<Rightarrow> jsval result" where
  "deserializeCompositeType rec h ser mapper0 responseBody0 objectName =
     rbind (if declaresDiscriminator (type_polymorphicDiscriminator mapper0)
            then getPolymorphicMapper h ser mapper0 responseBody0 objectName ''deserialize''
            else Ret mapper0)
       (\<lambda>mapper.
          (let responseBody = (if truthy responseBody0 then responseBody0 else JObj [])
           in rbind (resolveModelProperties ser mapper objectName)
                (deserializeProperties rec ser responseBody objectName (JObj []))))"

section \<open>deserialize\<close>

text \<open>
  \<^verbatim>\<open>base64.decodeString\<close> is a parameter on strings only: a wire value that is not a string,
  under a \<^verbatim>\<open>ByteArray\<close> mapper, is outside the model. A type name that matches nothing leaves
  \<^verbatim>\<open>payload\<close> unassigned, which is \<^verbatim>\<open>undefined\<close>.
\<close>

definition deserializeBody ::
  "(mapper \<Rightarrow> jsval \<Rightarrow> string \<Rightarrow> jsval result) \<Rightarrow> host \<Rightarrow> serializer \<Rightarrow> mapper \<Rightarrow> jsval \<Rightarrow>
   string \<Rightarrow> jsval result" where
  \<comment> \<open>the body of \<^verbatim>\<open>Serializer.deserialize\<close>; \<open>rec\<close> is \<^verbatim>\<open>this.deserialize\<close>\<close>
  "deserializeBody rec h ser mapper responseBody objectName0 =
     (if absent responseBody then
        Ret (if isXML ser \<and> type_name mapper = ''Sequence'' \<and> \<not> xmlIsWrapped mapper
             then JArr [] else responseBody)
      else
        (let mapperType = type_name mapper;
             objectName = resolveObjectName mapper objectName0
         in rbind
              (if typeNameIs mapperType [''Number''] then
                 Ret (if jsParseFloat h responseBody = NaN then responseBody
                      else JNum (jsParseFloat h responseBody))
               else if typeNameIs mapperType [''Boolean''] then
                 Ret (if responseBody = JStr ''true'' then JBool True
                      else if responseBody = JStr ''false'' then JBool False
                      else responseBody)
               else if typeNameIs mapperType
                         [''String'', ''Enum'', ''Object'', ''Stream'', ''Uuid'', ''TimeSpan'', ''any'']
               then Ret responseBody
               else if typeNameIs mapperType [''Date'', ''DateTime'', ''DateTimeRfc1123'']
               then Ret (JDate (newDate h responseBody))
               else if typeNameIs mapperType [''UnixTime'']
               then Ret (unixTimeToDate h responseBody)
               else if typeNameIs mapperType [''ByteArray'']
               then (case responseBody of JStr s \<Rightarrow> decodeBase64 h s | _ \<Rightarrow> Unmodelled)
               else if typeNameIs mapperType [''Base64Url'']
               then base64UrlToByteArray h responseBody
               else if typeNameIs mapperType [''Sequence'']
               then deserializeSequenceType rec mapper responseBody objectName
               else if typeNameIs mapperType [''Dictionary'']
               then deserializeDictionaryType rec mapper responseBody objectName
               else if typeNameIs mapperType [''Composite'']
               then deserializeCompositeType rec h ser mapper responseBody objectName
               else Ret Undefined)
              (\<lambda>payload. Ret (if isConstant mapper then defaultValue mapper else payload))))"

fun deserialize :: "nat \<Rightarrow> host \<Rightarrow> serializer \<Rightarrow> mapper \<Rightarrow> jsval \<Rightarrow> string \<Rightarrow> jsval result" where
  "deserialize 0 h ser mapper responseBody objectName = OutOfFuel"
| "deserialize (Suc fuel) h ser mapper responseBody objectName =
     deserializeBody (deserialize fuel h ser) h ser mapper responseBody objectName"

section \<open>The base64 codec\<close>

text \<open>
  Modelled from the spec: \<^verbatim>\<open>base64.encodeByteArray\<close> and \<^verbatim>\<open>base64.decodeString\<close> of
  \<^verbatim>\<open>./util/base64\<close>, which the spec describes as a codec between byte sequences and base64
  text. They are the standard base64 encoding with \<^verbatim>\<open>=\<close> padding, and a decoding that accepts
  its input with or without the padding and fails on a character outside the alphabet.
\<close>

definition base64Alphabet :: string where
  "base64Alphabet = ''ABCDEFGHIJKLMNOPQRSTUVWXYZabcdefghijklmnopqrstuvwxyz0123456789+/''"

definition sextetChar :: "nat \<Rightarrow> char" where
  "sextetChar n = base64Alphabet ! (n mod 64)"

fun encodeTriples :: "nat list \<Rightarrow> string" where
  "encodeTriples (a # b # c # rest) =
     (let n = a * 65536 + b * 256 + c
      in sextetChar (n div 262144) # sextetChar (n div 4096) # sextetChar (n div 64) # sextetChar n
         # encodeTriples rest)"
| "encodeTriples [a, b] =
     (let n = a * 65536 + b * 256
      in [sextetChar (n div 262144), sextetChar (n div 4096), sextetChar (n div 64), CHR ''=''])"
| "encodeTriples [a] =
     (let n = a * 65536
      in [sextetChar (n div 262144), sextetChar (n div 4096), CHR ''='', CHR ''=''])"
| "encodeTriples [] = []"

definition base64Encode :: "8 word list \<Rightarrow> string" where
  "base64Encode bs = encodeTriples (map unat bs)"

fun decodeQuads :: "nat list \<Rightarrow> nat list option" where
  "decodeQuads (a # b # c # d # rest) =
     (let n = a * 262144 + b * 4096 + c * 64 + d
      in map_option (\<lambda>bytes. (n div 65536) # (n div 256 mod 256) # (n mod 256) # bytes)
           (decodeQuads rest))"
| "decodeQuads [a, b, c] =
     (let n = a * 262144 + b * 4096 + c * 64 in Some [n div 65536, n div 256 mod 256])"
| "decodeQuads [a, b] = (let n = a * 262144 + b * 4096 in Some [n div 65536])"
| "decodeQuads [a] = None"
| "decodeQuads [] = Some []"

fun allSome :: "'a option list \<Rightarrow> 'a list option" where
  "allSome [] = Some []"
| "allSome (x # xs) =
     (case x of None \<Rightarrow> None | Some y \<Rightarrow> map_option (\<lambda>ys. y # ys) (allSome xs))"

definition base64Decode :: "string \<Rightarrow> 8 word list option" where
  "base64Decode str =
     (case allSome (map (positionOf base64Alphabet) (trimEnd str (CHR ''=''))) of
        None \<Rightarrow> None
      | Some sextets \<Rightarrow> map_option (map of_nat) (decodeQuads sextets))"

text \<open>
  The runtime the closed examples below are evaluated with. Its codec is the one above; the
  examples call none of its other primitives, which are constant functions here.
\<close>

definition exampleHost :: host where
  "exampleHost =
     \<lparr> stringToNumber = (\<lambda>s. NaN), parseFloatStr = (\<lambda>s. NaN), fractionToString = (\<lambda>q. []),
       regexMatch = (\<lambda>s re. False), dateParse = (\<lambda>s. NaN), dateToString = (\<lambda>t. []),
       toISOString = (\<lambda>t. []), toUTCString = (\<lambda>t. []), isValidUuid = (\<lambda>s. False),
       isDuration = (\<lambda>v. False), encodeByteArray = base64Encode, decodeString = base64Decode \<rparr>"

definition jsonSerializer :: serializer where
  \<comment> \<open>\<^verbatim>\<open>new Serializer()\<close>\<close>
  "jsonSerializer = \<lparr> modelMappers = None, isXML = False \<rparr>"

definition xmlSerializer :: serializer where
  \<comment> \<open>\<^verbatim>\<open>new Serializer(undefined, true)\<close>\<close>
  "xmlSerializer = \<lparr> modelMappers = None, isXML = True \<rparr>"

definition plainMapper :: "string \<Rightarrow> string \<Rightarrow> mapper" where
  \<comment> \<open>\<^verbatim>\<open>{ serializedName: s, type: { name: t } }\<close>\<close>
  "plainMapper t s =
     Mapper None False None False False False False None s Undefined None None
            t None None None None None None None"

definition requiredMapper :: mapper where
  \<comment> \<open>\<^verbatim>\<open>{ required: true, serializedName: "x", type: { name: "String" } }\<close>\<close>
  "requiredMapper =
     Mapper None False None False False False True None ''x'' Undefined None None
            ''String'' None None None None None None None"

definition requiredNullableMapper :: mapper where
  \<comment> \<open>\<^verbatim>\<open>{ required: true, nullable: true, serializedName: "x", type: { name: "String" } }\<close>\<close>
  "requiredNullableMapper =
     Mapper None False None False False False True (Some True) ''x'' Undefined None None
            ''String'' None None None None None None None"

definition notNullableMapper :: mapper where
  \<comment> \<open>\<^verbatim>\<open>{ nullable: false, serializedName: "x", type: { name: "String" } }\<close>\<close>
  "notNullableMapper =
     Mapper None False None False False False False (Some False) ''x'' Undefined None None
            ''String'' None None None None None None None"

definition isConstraintViolation :: "'a result \<Rightarrow> bool" where
  \<comment> \<open>the call threw the error of \<^verbatim>\<open>failValidation\<close>\<close>
  "isConstraintViolation r =
     (case r of
        Throw e \<Rightarrow> (case e of ConstraintViolated n v c b \<Rightarrow> True | _ \<Rightarrow> False)
      | _ \<Rightarrow> False)"

fun withConstraints :: "mapperConstraints option \<Rightarrow> mapper \<Rightarrow> mapper" where
  \<comment> \<open>the mapper with another \<^verbatim>\<open>constraints\<close> field\<close>
  "withConstraints c (Mapper xn xa xe xw ro ic rq nu sn dv cs hp tn te tv ta tc tm tu tp) =
     Mapper xn xa xe xw ro ic rq nu sn dv c hp tn te tv ta tc tm tu tp"

definition noConstraints :: mapperConstraints where
  "noConstraints =
     \<lparr> InclusiveMaximum = None, ExclusiveMaximum = None, InclusiveMinimum = None,
       ExclusiveMinimum = None, MaxLength = None, MinLength = None, Pattern = None,
       MaxItems = None, MinItems = None, UniqueItems = False, MultipleOf = None \<rparr>"

definition atMostTenMapper :: mapper where
  \<comment> \<open>\<^verbatim>\<open>{ serializedName: "n", type: { name: "Number" }, constraints: { InclusiveMaximum: 10 } }\<close>\<close>
  "atMostTenMapper =
     withConstraints (Some (noConstraints \<lparr> InclusiveMaximum := Some (Num 10) \<rparr>))
       (plainMapper ''Number'' ''n'')"


definition numericBound :: "jsnum option \<Rightarrow> (jsnum \<Rightarrow> bool) \<Rightarrow> bool" where
  "numericBound bound beyond = (case bound of Some b \<Rightarrow> beyond b | None \<Rightarrow> False)"

fun violated :: "host \<Rightarrow> mapperConstraints \<Rightarrow> jsval \<Rightarrow> constraintName \<Rightarrow> bool" where
  "violated h c v CExclusiveMaximum = numericBound (ExclusiveMaximum c) (\<lambda>b. js_ge (toNumber h v) b)"
| "violated h c v CExclusiveMinimum = numericBound (ExclusiveMinimum c) (\<lambda>b. js_le (toNumber h v) b)"
| "violated h c v CInclusiveMaximum = numericBound (InclusiveMaximum c) (\<lambda>b. js_gt (toNumber h v) b)"
| "violated h c v CInclusiveMinimum = numericBound (InclusiveMinimum c) (\<lambda>b. js_lt (toNumber h v) b)"
| "violated h c v CMaxItems =
     numericBound (MaxItems c) (\<lambda>b. js_gt (toNumber h (propOf v ''length'')) b)"
| "violated h c v CMaxLength =
     numericBound (MaxLength c) (\<lambda>b. js_gt (toNumber h (propOf v ''length'')) b)"
| "violated h c v CMinItems =
     numericBound (MinItems c) (\<lambda>b. js_lt (toNumber h (propOf v ''length'')) b)"
| "violated h c v CMinLength =
     numericBound (MinLength c) (\<lambda>b. js_lt (toNumber h (propOf v ''length'')) b)"
| "violated h c v CMultipleOf =
     numericBound (MultipleOf c) (\<lambda>b. js_rem (toNumber h v) b \<noteq> Num 0)"
| "violated h c v CPattern =
     (case Pattern c of
        Some re \<Rightarrow> (case v of JStr s \<Rightarrow> \<not> regexMatch h s re | _ \<Rightarrow> False)
      | None \<Rightarrow> False)"
| "violated h c v CUniqueItems = (UniqueItems c \<and> hasRepeatedItem v = Ret True)"





definition uniqueItemsMapper :: mapper where
  \<comment> \<open>\<^verbatim>\<open>{ serializedName: "xs", type: { name: "Sequence", element: any "x" },
         constraints: { UniqueItems: true } }\<close>\<close>
  "uniqueItemsMapper =
     Mapper None False None False False False False None ''xs'' Undefined
            (Some (noConstraints \<lparr> UniqueItems := True \<rparr>)) None
            ''Sequence'' (Some (plainMapper ''any'' ''x'')) None None None None None None"

definition sameObjectTwice :: jsval where
  \<comment> \<open>\<^verbatim>\<open>o = {}; [o, o]\<close>: one object at both places\<close>
  "sameObjectTwice = JArr [JShared 0 (JObj []), JShared 0 (JObj [])]"

definition twoEmptyObjects :: jsval where
  \<comment> \<open>\<^verbatim>\<open>[{}, {}]\<close>: two objects that look alike\<close>
  "twoEmptyObjects = JArr [JObj [], JObj []]"

text \<open>
  The words of the spec about polymorphic mappers: the discriminator map of the registry, and
  the field of the object that carries the discriminator value.
\<close>

definition registryHasIndex :: "serializer \<Rightarrow> bool" where
  \<comment> \<open>a registry, when the serializer has one, holds its discriminator map\<close>
  "registryHasIndex ser =
     (case modelMappers ser of None \<Rightarrow> True | Some reg \<Rightarrow> discriminators reg \<noteq> None)"

definition registeredSubtype :: "serializer \<Rightarrow> string \<Rightarrow> mapper option" where
  \<comment> \<open>the entry of the registry's discriminator map at an index\<close>
  "registeredSubtype ser indexDiscriminator =
     (case modelMappers ser of
        None \<Rightarrow> None
      | Some reg \<Rightarrow>
          (case discriminators reg of None \<Rightarrow> None | Some table \<Rightarrow> map_of table indexDiscriminator))"

definition subtypeOrBase :: "host \<Rightarrow> serializer \<Rightarrow> mapper \<Rightarrow> jsval \<Rightarrow> mapper" where
  \<comment> \<open>the registered subtype for a discriminator value, the base mapper when there is none\<close>
  "subtypeOrBase h ser mapper discriminatorValue =
     (case registeredSubtype ser (discriminatorIndex h (type_uberParent mapper) discriminatorValue) of
        Some subtype \<Rightarrow> subtype
      | None \<Rightarrow> mapper)"

fun discriminatorField :: "discriminator \<Rightarrow> string \<Rightarrow> string option" where
  \<comment> \<open>the string form names the field; the object form names it by \<^verbatim>\<open>clientName\<close> when
      serializing and by \<^verbatim>\<open>serializedName\<close> when deserializing\<close>
  "discriminatorField (DiscString field) mode = Some field"
| "discriminatorField (DiscObject sn cn) mode = (if mode = ''serialize'' then cn else sn)"

definition animalMapper :: mapper where
  \<comment> \<open>\<^verbatim>\<open>{ serializedName: "Animal", type: { name: "Composite", className: "Animal",
         uberParent: "Animal", polymorphicDiscriminator: "kind",
         modelProperties: { kind: String "kind", name: String "name" } } }\<close>\<close>
  "animalMapper =
     Mapper None False None False False False False None ''Animal'' Undefined None None
            ''Composite'' None None None (Some ''Animal'')
            (Some [(''kind'', plainMapper ''String'' ''kind''),
                   (''name'', plainMapper ''String'' ''name'')])
            (Some ''Animal'') (Some (DiscString ''kind''))"

definition dogMapper :: mapper where
  \<comment> \<open>the subtype \<^verbatim>\<open>Dog\<close>: the properties of \<^verbatim>\<open>Animal\<close> and \<^verbatim>\<open>bark\<close>\<close>
  "dogMapper =
     Mapper None False None False False False False None ''Dog'' Undefined None None
            ''Composite'' None None None (Some ''Dog'')
            (Some [(''kind'', plainMapper ''String'' ''kind''),
                   (''name'', plainMapper ''String'' ''name''),
                   (''bark'', plainMapper ''String'' ''bark'')])
            (Some ''Animal'') (Some (DiscString ''kind''))"

definition animalByObjectMapper :: mapper where
  \<comment> \<open>\<^verbatim>\<open>Animal\<close> with the discriminator in its object form,
      \<^verbatim>\<open>{ serializedName: "kind", clientName: "kind" }\<close>\<close>
  "animalByObjectMapper =
     Mapper None False None False False False False None ''Animal'' Undefined None None
            ''Composite'' None None None (Some ''Animal'')
            (Some [(''kind'', plainMapper ''String'' ''kind''),
                   (''name'', plainMapper ''String'' ''name'')])
            (Some ''Animal'') (Some (DiscObject (Some ''kind'') (Some ''kind'')))"

definition rex :: jsval where
  \<comment> \<open>\<^verbatim>\<open>{ kind: "Dog", name: "Rex", bark: "loud" }\<close>\<close>
  "rex = JObj [(''kind'', JStr ''Dog''), (''name'', JStr ''Rex''), (''bark'', JStr ''loud'')]"

definition tom :: jsval where
  \<comment> \<open>\<^verbatim>\<open>{ kind: "Cat", name: "Tom", purr: "soft" }\<close>\<close>
  "tom = JObj [(''kind'', JStr ''Cat''), (''name'', JStr ''Tom''), (''purr'', JStr ''soft'')]"

definition animalSerializer :: serializer where
  \<comment> \<open>\<^verbatim>\<open>new Serializer({ Animal, Dog, discriminators: { "Animal": Animal, "Animal.Dog": Dog } })\<close>\<close>
  "animalSerializer =
     \<lparr> modelMappers =
         Some \<lparr> classes = [(''Animal'', animalMapper), (''Dog'', dogMapper)],
                discriminators = Some [(''Animal'', animalMapper), (''Animal.Dog'', dogMapper)] \<rparr>,
       isXML = False \<rparr>"






definition compositeMapper :: "string \<Rightarrow> (string \<times> mapper) list \<Rightarrow> mapper" where
  \<comment> \<open>\<^verbatim>\<open>{ serializedName: s, type: { name: "Composite", className: s, modelProperties: props } }\<close>\<close>
  "compositeMapper s props =
     Mapper None False None False False False False None s Undefined None None
            ''Composite'' None None None (Some s) (Some props) None None"

definition dottedMapper :: mapper where
  \<comment> \<open>the only property, \<^verbatim>\<open>x\<close>, is a \<^verbatim>\<open>Number\<close> with \<^verbatim>\<open>serializedName: "a.b.c"\<close>\<close>
  "dottedMapper = compositeMapper ''o'' [(''x'', plainMapper ''Number'' ''a.b.c'')]"

definition readOnlyDottedProperty :: mapper where
  \<comment> \<open>\<^verbatim>\<open>{ readOnly: true, serializedName: "a.b", type: { name: "Number" } }\<close>\<close>
  "readOnlyDottedProperty =
     Mapper None False None False True False False None ''a.b'' Undefined None None
            ''Number'' None None None None None None None"

definition readOnlyDottedMapper :: mapper where
  \<comment> \<open>the only property, \<^verbatim>\<open>x\<close>, is the read-only one above\<close>
  "readOnlyDottedMapper = compositeMapper ''o'' [(''x'', readOnlyDottedProperty)]"

definition nullableDottedProperty :: mapper where
  \<comment> \<open>\<^verbatim>\<open>{ nullable: true, serializedName: "a.b", type: { name: "String" } }\<close>\<close>
  "nullableDottedProperty =
     Mapper None False None False False False False (Some True) ''a.b'' Undefined None None
            ''String'' None None None None None None None"

definition nullableDottedMapper :: mapper where
  \<comment> \<open>the only property, \<^verbatim>\<open>x\<close>, is the nullable one above\<close>
  "nullableDottedMapper = compositeMapper ''o'' [(''x'', nullableDottedProperty)]"

definition nullableMapper :: mapper where
  \<comment> \<open>\<^verbatim>\<open>{ nullable: true, serializedName: "x", type: { name: "String" } }\<close>\<close>
  "nullableMapper =
     Mapper None False None False False False False (Some True) ''x'' Undefined None None
            ''String'' None None None None None None None"

definition wrappedItemsMapper :: mapper where
  \<comment> \<open>\<^verbatim>\<open>{ xmlName: "Items", xmlElementName: "Item", xmlIsWrapped: true, serializedName: "items",
         type: { name: "Sequence", element: String "Item" } }\<close>\<close>
  "wrappedItemsMapper =
     Mapper (Some ''Items'') False (Some ''Item'') True False False False None ''items'' Undefined
            None None ''Sequence'' (Some (plainMapper ''String'' ''Item'')) None None None None None None"

definition wrappedListMapper :: mapper where
  \<comment> \<open>the only property, \<^verbatim>\<open>items\<close>, is the wrapped list above\<close>
  "wrappedListMapper = compositeMapper ''o'' [(''items'', wrappedItemsMapper)]"

definition emptyMapper :: mapper where
  \<comment> \<open>a composite with no property\<close>
  "emptyMapper = compositeMapper ''o'' []"

section \<open>Properties\<close>

subsection \<open>Evaluating the model\<close>

lemma rbind_simps [simp]:
  "rbind (Ret x) f = f x"
  "rbind (Throw e) f = Throw e"
  "rbind OutOfFuel f = OutOfFuel"
  "rbind Unmodelled f = Unmodelled"
  by (simp_all add: rbind_def)

lemma andThen_simps [simp]:
  "andThen (Ret u) k = k"
  "andThen (Throw e) k = Throw e"
  "andThen OutOfFuel k = OutOfFuel"
  "andThen Unmodelled k = Unmodelled"
  by (simp_all add: andThen_def)

lemma absent_simps [simp]:
  "absent Undefined" "absent Null" "\<not> absent (JBool b)" "\<not> absent (JNum n)" "\<not> absent (JStr s)"
  "\<not> absent (JBytes bs)" "\<not> absent (JDate t)" "\<not> absent (JArr xs)" "\<not> absent (JObj kvs)"
  by (simp_all add: absent_def)

lemmas typeNameIs_eval = typeNameIs_def toLowerCase_def lowerChar_def

subsection \<open>The required and nullable checks of serialize\<close>

text \<open>
  C1. After the default value has stood in for an absent object (\<open>withDefault\<close>),
  \<open>serialize\<close> treats \<^verbatim>\<open>undefined\<close> and \<^verbatim>\<open>null\<close> as the table of the source says.
  With \<open>required\<close> true and \<open>nullable\<close> true, \<^verbatim>\<open>undefined\<close> is rejected and \<^verbatim>\<open>null\<close> is
  returned. With \<open>required\<close> true and \<open>nullable\<close> false or unset, both are rejected. With
  \<open>required\<close> false and \<open>nullable\<close> false, \<^verbatim>\<open>null\<close> is rejected and \<^verbatim>\<open>undefined\<close> is
  returned. With \<open>required\<close> false and \<open>nullable\<close> true or unset, both are returned. Every
  rejection is an error that names the object. A value that is neither \<^verbatim>\<open>undefined\<close> nor
  \<^verbatim>\<open>null\<close> passes these checks whatever the two flags are, and goes on to the constraint
  validator and the encoder of its type.
\<close>

theorem serialize_absentness_table:
  "(withDefault mapper object = Undefined \<longrightarrow>
      serialize (Suc fuel) h ser mapper object objectName =
        (if required mapper
         then (if nullable mapper = Some True
               then Throw (CannotBeUndefined (resolveObjectName mapper objectName))
               else Throw (CannotBeNullOrUndefined (resolveObjectName mapper objectName)))
         else Ret Undefined))
   \<and> (withDefault mapper object = Null \<longrightarrow>
      serialize (Suc fuel) h ser mapper object objectName =
        (if required mapper
         then (if nullable mapper = Some True then Ret Null
               else Throw (CannotBeNullOrUndefined (resolveObjectName mapper objectName)))
         else (if nullable mapper = Some False
               then Throw (CannotBeNull (resolveObjectName mapper objectName))
               else Ret Null)))
   \<and> (\<not> absent (withDefault mapper object) \<longrightarrow>
      serialize (Suc fuel) h ser mapper object objectName =
        serializePresent (serialize fuel h ser) h ser mapper (withDefault mapper object)
          (resolveObjectName mapper objectName))"
  by (simp add: serializeBody_def Let_def absent_def)

theorem serialize_absentness_table_witness:
  "serialize 1 exampleHost jsonSerializer requiredNullableMapper Undefined ''x''
     = Throw (CannotBeUndefined ''x'')
   \<and> serialize 1 exampleHost jsonSerializer requiredNullableMapper Null ''x'' = Ret Null
   \<and> serialize 1 exampleHost jsonSerializer requiredMapper Undefined ''x''
     = Throw (CannotBeNullOrUndefined ''x'')
   \<and> serialize 1 exampleHost jsonSerializer requiredMapper Null ''x''
     = Throw (CannotBeNullOrUndefined ''x'')
   \<and> serialize 1 exampleHost jsonSerializer notNullableMapper Undefined ''x'' = Ret Undefined
   \<and> serialize 1 exampleHost jsonSerializer notNullableMapper Null ''x'' = Throw (CannotBeNull ''x'')
   \<and> serialize 1 exampleHost jsonSerializer (plainMapper ''String'' ''x'') Undefined ''x''
     = Ret Undefined
   \<and> serialize 1 exampleHost jsonSerializer (plainMapper ''String'' ''x'') Null ''x'' = Ret Null
   \<and> serialize 1 exampleHost jsonSerializer requiredMapper (JStr ''v'') ''x''
     = serializePresent (serialize 0 exampleHost jsonSerializer) exampleHost jsonSerializer
         requiredMapper (JStr ''v'') ''x''"
  using serialize_absentness_table [of requiredNullableMapper Undefined 0 exampleHost jsonSerializer "''x''"]
        serialize_absentness_table [of requiredNullableMapper Null 0 exampleHost jsonSerializer "''x''"]
        serialize_absentness_table [of requiredMapper Undefined 0 exampleHost jsonSerializer "''x''"]
        serialize_absentness_table [of requiredMapper Null 0 exampleHost jsonSerializer "''x''"]
        serialize_absentness_table [of notNullableMapper Undefined 0 exampleHost jsonSerializer "''x''"]
        serialize_absentness_table [of notNullableMapper Null 0 exampleHost jsonSerializer "''x''"]
        serialize_absentness_table [of "plainMapper ''String'' ''x''" Undefined 0 exampleHost jsonSerializer "''x''"]
        serialize_absentness_table [of "plainMapper ''String'' ''x''" Null 0 exampleHost jsonSerializer "''x''"]
        serialize_absentness_table [of requiredMapper "JStr ''v''" 0 exampleHost jsonSerializer "''x''"]
  by (simp add: withDefault_def resolveObjectName_def requiredNullableMapper_def requiredMapper_def
        notNullableMapper_def plainMapper_def)

subsection \<open>deserialize and absent values\<close>

text \<open>
  C3, as amended. \<open>deserialize\<close> has no check of \<open>required\<close> or \<open>nullable\<close>: whatever the
  mapper says, an \<^verbatim>\<open>undefined\<close> or \<^verbatim>\<open>null\<close> wire value raises no error and is returned as
  it is, except that in XML mode a mapper whose type name is exactly \<^verbatim>\<open>Sequence\<close> and that is
  not wrapped gives the empty list.
\<close>

theorem deserialize_absent_is_returned:
  "deserialize (Suc fuel) h ser mapper Undefined objectName =
     Ret (if isXML ser \<and> type_name mapper = ''Sequence'' \<and> \<not> xmlIsWrapped mapper
          then JArr [] else Undefined)
   \<and> deserialize (Suc fuel) h ser mapper Null objectName =
     Ret (if isXML ser \<and> type_name mapper = ''Sequence'' \<and> \<not> xmlIsWrapped mapper
          then JArr [] else Null)"
  by (simp add: deserializeBody_def)

text \<open>
  The claim as the spec states it fails: for a mapper with \<open>required\<close> true, \<open>deserialize\<close>
  returns \<^verbatim>\<open>undefined\<close> and \<^verbatim>\<open>null\<close>, where \<open>serialize\<close> throws.
\<close>

theorem deserialize_required_absent_counterexample:
  "required requiredMapper
   \<and> deserialize 1 exampleHost jsonSerializer requiredMapper Undefined ''x'' = Ret Undefined
   \<and> deserialize 1 exampleHost jsonSerializer requiredMapper Null ''x'' = Ret Null
   \<and> serialize 1 exampleHost jsonSerializer requiredMapper Undefined ''x''
       = Throw (CannotBeNullOrUndefined ''x'')"
  by (simp add: deserializeBody_def serializeBody_def requiredMapper_def jsonSerializer_def
        withDefault_def resolveObjectName_def)

subsection \<open>Base64Url\<close>

lemma base64Encode_fb_ff: "base64Encode [0xfb, 0xff] = ''+/8=''"
  by (simp add: base64Encode_def sextetChar_def base64Alphabet_def)

lemma trimEnd_padded: "trimEnd ''+/8='' (CHR ''='') = ''+/8''"
  by (simp add: trimEnd_def numeral_eq_Suc)

lemma trimEnd_unpadded: "trimEnd ''+/8'' (CHR ''='') = ''+/8''"
  by (simp add: trimEnd_def numeral_eq_Suc)

lemma base64Decode_unpadded: "base64Decode ''+/8'' = Some [0xfb, 0xff]"
  by (simp add: base64Decode_def trimEnd_unpadded base64Alphabet_def)

lemma serialize_base64url_fb_ff:
  "serialize (Suc fuel) exampleHost ser (plainMapper ''Base64Url'' ''b'') (JBytes [0xfb, 0xff]) objectName
     = Ret (JStr ''-_8'')"
  apply (simp add: serializeBody_def withDefault_def plainMapper_def)
  apply (simp add: serializePresent_def validateConstraints_def typeNameIs_eval)
  apply (simp add: serializeBase64UrlType_def bufferToBase64Url_def exampleHost_def
           base64Encode_fb_ff trimEnd_padded replaceAll_def)
  done

lemma deserialize_base64url_fb_ff:
  "deserialize (Suc fuel) exampleHost ser (plainMapper ''Base64Url'' ''b'') (JStr ''-_8'') objectName
     = Ret (JBytes [0xfb, 0xff])"
  apply (simp add: deserializeBody_def plainMapper_def typeNameIs_eval)
  apply (simp add: base64UrlToByteArray_def replaceAll_def decodeBase64_def exampleHost_def
           base64Decode_unpadded)
  done

text \<open>
  C8. The bytes \<^verbatim>\<open>0xfb 0xff\<close> encode in base64 to \<^verbatim>\<open>+/8=\<close>, which has a \<^verbatim>\<open>+\<close> and a \<^verbatim>\<open>/\<close>.
  A mapper of type \<^verbatim>\<open>Base64Url\<close> serializes them to \<^verbatim>\<open>-_8\<close> (the padding is gone, \<^verbatim>\<open>+\<close> is
  \<^verbatim>\<open>-\<close> and \<^verbatim>\<open>/\<close> is \<^verbatim>\<open>_\<close>), and deserializes \<^verbatim>\<open>-_8\<close> to the two bytes again. The codec
  is the standard base64 of \<open>exampleHost\<close>.
\<close>

theorem base64url_round_trip:
  "base64Encode [0xfb, 0xff] = ''+/8=''
   \<and> serialize (Suc fuel) exampleHost ser (plainMapper ''Base64Url'' ''b'') (JBytes [0xfb, 0xff])
         objectName = Ret (JStr ''-_8'')
   \<and> deserialize (Suc fuel) exampleHost ser (plainMapper ''Base64Url'' ''b'') (JStr ''-_8'')
         objectName = Ret (JBytes [0xfb, 0xff])"
  by (simp only: base64Encode_fb_ff serialize_base64url_fb_ff deserialize_base64url_fb_ff simp_thms)

subsection \<open>deserialize validates no constraint\<close>

lemma icv_simps [simp]:
  "\<not> isConstraintViolation (Ret x)" "\<not> isConstraintViolation OutOfFuel" "\<not> isConstraintViolation Unmodelled"
  "isConstraintViolation (Throw e) = (case e of ConstraintViolated n v c b \<Rightarrow> True | _ \<Rightarrow> False)"
  by (simp_all add: isConstraintViolation_def)

lemma icv_rbind [simp]:
  "isConstraintViolation (rbind r f) =
     (isConstraintViolation r \<or> (\<exists>x. r = Ret x \<and> isConstraintViolation (f x)))"
  by (cases r) (simp_all del: icv_simps(4) add: isConstraintViolation_def)

lemma nc_setProp [simp]: "\<not> isConstraintViolation (setProp v k x)"
  by (cases v) simp_all

lemma nc_ownKeys [simp]: "\<not> isConstraintViolation (ownKeys v)"
  by (induction v rule: ownKeys.induct) simp_all

lemma nc_lookupDiscriminator [simp]: "\<not> isConstraintViolation (lookupDiscriminator ser i m)"
  by (simp add: lookupDiscriminator_def split: option.splits)

lemma nc_getPolymorphicMapper [simp]: "\<not> isConstraintViolation (getPolymorphicMapper h ser m v n mode)"
  by (simp add: getPolymorphicMapper_def getPolymorphicMapperStringVersion_def
      getPolymorphicMapperObjectVersion_def
      split: option.splits discriminator.splits)

lemma nc_resolveModelProperties [simp]: "\<not> isConstraintViolation (resolveModelProperties ser m n)"
  by (simp add: resolveModelProperties_def split: option.splits)

lemma nc_mapResult:
  "(\<And>x. \<not> isConstraintViolation (f x)) \<Longrightarrow> \<not> isConstraintViolation (mapResult f xs)"
  by (induction xs) simp_all

lemma nc_decodeBase64 [simp]: "\<not> isConstraintViolation (decodeBase64 h s)"
  by (simp add: decodeBase64_def split: option.splits)

lemma nc_base64UrlToByteArray [simp]: "\<not> isConstraintViolation (base64UrlToByteArray h v)"
  by (simp add: base64UrlToByteArray_def split: jsval.splits)

lemma nc_deserializeSequenceType:
  assumes "\<And>m v n. \<not> isConstraintViolation (rec m v n)"
  shows "\<not> isConstraintViolation (deserializeSequenceType rec mapper v n)"
  by (simp add: deserializeSequenceType_def nc_mapResult assms split: option.splits)

lemma nc_deserializeDictionaryEntries:
  assumes "\<And>m v n. \<not> isConstraintViolation (rec m v n)"
  shows "\<not> isConstraintViolation (deserializeDictionaryEntries rec vt v n acc keys)"
  by (induction keys arbitrary: acc) (simp_all add: assms)

lemma nc_deserializeDictionaryType:
  assumes "\<And>m v n. \<not> isConstraintViolation (rec m v n)"
  shows "\<not> isConstraintViolation (deserializeDictionaryType rec mapper v n)"
  by (simp add: deserializeDictionaryType_def nc_deserializeDictionaryEntries assms
      split: option.splits)

lemma nc_collectHeaders:
  assumes "\<And>m v n. \<not> isConstraintViolation (rec m v n)"
  shows "\<not> isConstraintViolation (collectHeaders rec ser vt v n prefix acc keys)"
  by (induction keys arbitrary: acc) (simp_all add: assms split: option.splits)

lemma nc_deserializeProperty:
  assumes "\<And>m v n. \<not> isConstraintViolation (rec m v n)"
  shows "\<not> isConstraintViolation (deserializeProperty rec ser v n inst key pm)"
  by (simp add: deserializeProperty_def Let_def nc_collectHeaders assms)

lemma nc_deserializeProperties:
  assumes "\<And>m v n. \<not> isConstraintViolation (rec m v n)"
  shows "\<not> isConstraintViolation (deserializeProperties rec ser v n inst props)"
  using assms
  by (induction rec ser v n inst props rule: deserializeProperties.induct)
     (simp_all add: nc_deserializeProperty)

lemma nc_deserializeCompositeType:
  assumes "\<And>m v n. \<not> isConstraintViolation (rec m v n)"
  shows "\<not> isConstraintViolation (deserializeCompositeType rec h ser mapper v n)"
  by (simp add: deserializeCompositeType_def Let_def nc_deserializeProperties assms)

lemma nc_deserializeBody:
  assumes "\<And>m v n. \<not> isConstraintViolation (rec m v n)"
  shows "\<not> isConstraintViolation (deserializeBody rec h ser mapper v n)"
  by (simp add: deserializeBody_def Let_def
      nc_deserializeSequenceType nc_deserializeDictionaryType nc_deserializeCompositeType assms
      split: jsval.splits)

lemma nc_deserialize: "\<not> isConstraintViolation (deserialize fuel h ser mapper v n)"
  by (induction fuel arbitrary: mapper v n) (simp_all add: nc_deserializeBody)

lemma wc_sel [simp]:
  "type_name (withConstraints c m) = type_name m"
  "serializedName (withConstraints c m) = serializedName m"
  "isConstant (withConstraints c m) = isConstant m"
  "defaultValue (withConstraints c m) = defaultValue m"
  "xmlIsWrapped (withConstraints c m) = xmlIsWrapped m"
  "type_element (withConstraints c m) = type_element m"
  "type_value (withConstraints c m) = type_value m"
  "type_className (withConstraints c m) = type_className m"
  "type_modelProperties (withConstraints c m) = type_modelProperties m"
  "type_uberParent (withConstraints c m) = type_uberParent m"
  "type_polymorphicDiscriminator (withConstraints c m) = type_polymorphicDiscriminator m"
  "constraints (withConstraints c m) = c"
  "required (withConstraints c m) = required m"
  "nullable (withConstraints c m) = nullable m"
  by (cases m; simp)+

lemma resolveModelProperties_wc [simp]:
  "resolveModelProperties ser (withConstraints c m) n = resolveModelProperties ser m n"
  by (simp add: resolveModelProperties_def split: option.splits)

lemma deserializeCompositeType_wc:
  "deserializeCompositeType rec h ser (withConstraints c m) v n = deserializeCompositeType rec h ser m v n"
  by (simp add: deserializeCompositeType_def getPolymorphicMapper_def lookupDiscriminator_def
      getPolymorphicMapperStringVersion_def getPolymorphicMapperObjectVersion_def Let_def
      split: option.splits discriminator.splits)

lemma deserializeBody_wc:
  "deserializeBody rec h ser (withConstraints c m) v n = deserializeBody rec h ser m v n"
  by (simp add: deserializeBody_def deserializeCompositeType_wc deserializeSequenceType_def
      deserializeDictionaryType_def resolveObjectName_def Let_def cong del: if_weak_cong)

lemma deserialize_atMostTen:
  "deserialize (Suc fuel) h ser atMostTenMapper (JNum (Num 11)) n = Ret (JNum (Num 11))"
  by (simp add: atMostTenMapper_def deserializeBody_wc)
     (simp add: deserializeBody_def plainMapper_def typeNameIs_eval jsParseFloat_def)

lemma serialize_atMostTen:
  "serialize (Suc fuel) h ser atMostTenMapper (JNum (Num 11)) ''n''
     = Throw (ConstraintViolated ''n'' (JNum (Num 11)) CInclusiveMaximum (JNum (Num 10)))"
  by (simp add: atMostTenMapper_def serializeBody_def serializePresent_def withDefault_def
      plainMapper_def resolveObjectName_def validateConstraints_def noConstraints_def
      checkBound_def failValidation_def js_ge_def js_gt_def js_le_def js_lt_def)

text \<open>
  C9. \<open>deserialize\<close> never throws the error of the constraint validator, at any depth and
  with any fuel, and what it returns does not depend on the \<open>constraints\<close> of its mapper: the
  mapper with any other constraints block, or with none, gives the same result. For a
  \<^verbatim>\<open>Number\<close> mapper with \<^verbatim>\<open>InclusiveMaximum: 10\<close>, \<open>deserialize\<close> returns the wire value
  \<^verbatim>\<open>11\<close>, which \<open>serialize\<close> rejects with the violation of \<^verbatim>\<open>InclusiveMaximum\<close>.
\<close>

theorem deserialize_validates_no_constraint:
  "\<not> isConstraintViolation (deserialize fuel h ser mapper responseBody objectName)
   \<and> deserialize fuel h ser (withConstraints c mapper) responseBody objectName
       = deserialize fuel h ser mapper responseBody objectName
   \<and> deserialize (Suc fuel) h ser atMostTenMapper (JNum (Num 11)) objectName = Ret (JNum (Num 11))
   \<and> serialize (Suc fuel) h ser atMostTenMapper (JNum (Num 11)) ''n''
       = Throw (ConstraintViolated ''n'' (JNum (Num 11)) CInclusiveMaximum (JNum (Num 10)))"
proof -
  have "deserialize fuel h ser (withConstraints c mapper) responseBody objectName
          = deserialize fuel h ser mapper responseBody objectName"
    by (cases fuel) (simp_all add: deserializeBody_wc)
  then show ?thesis
    by (simp only: nc_deserialize deserialize_atMostTen serialize_atMostTen simp_thms)
qed

subsection \<open>The order of the constraints\<close>







text \<open>
  The scan of \<^verbatim>\<open>UniqueItems\<close> compares with \<^verbatim>\<open>===\<close>. An array that holds one object at two
  places is rejected, by the validator and so by \<open>serialize\<close>; an array of two objects that
  look alike passes; a number that occurs twice is rejected.
\<close>

lemma uniqueItems_repeated_reference:
  "serialize (Suc (Suc 0)) exampleHost jsonSerializer uniqueItemsMapper sameObjectTwice ''xs''
     = Throw (ConstraintViolated ''xs'' sameObjectTwice CUniqueItems (JBool True))
   \<and> serialize (Suc (Suc 0)) exampleHost jsonSerializer uniqueItemsMapper twoEmptyObjects ''xs''
     = Ret twoEmptyObjects
   \<and> validateConstraints exampleHost uniqueItemsMapper (JArr [JNum (Num 1), JNum (Num 1)]) ''xs''
     = Throw (ConstraintViolated ''xs'' (JArr [JNum (Num 1), JNum (Num 1)]) CUniqueItems (JBool True))"
  by (simp add: uniqueItemsMapper_def noConstraints_def validateConstraints_def checkBound_def
        checkPattern_def checkUniqueItems_def failValidation_def hasRepeatedItem_def
        indexOfDiffers_def strictEq_def sameObjectTwice_def twoEmptyObjects_def
        serializeBody_def serializePresent_def withDefault_def plainMapper_def
        resolveObjectName_def serializeSequenceType_def typeNameIs_def toLowerCase_def
        lowerChar_def)




subsection \<open>Polymorphic mappers\<close>

lemma lookupDiscriminator_registered:
  "registryHasIndex ser \<Longrightarrow>
   lookupDiscriminator ser (discriminatorIndex h (type_uberParent mapper) dv) mapper
     = Ret (subtypeOrBase h ser mapper dv)"
  by (auto simp add: lookupDiscriminator_def registryHasIndex_def registeredSubtype_def
      subtypeOrBase_def split: option.splits)

lemma getPolymorphicMapper_resolved:
  assumes "registryHasIndex ser"
    and "type_polymorphicDiscriminator mapper = Some d"
    and "declaresDiscriminator (Some d)"
    and "mode = ''serialize'' \<or> mode = ''deserialize''"
    and "discriminatorField d mode = Some field"
    and "\<not> absent object" and "\<not> absent (propOf object field)"
  shows "getPolymorphicMapper h ser mapper object objectName mode
           = Ret (subtypeOrBase h ser mapper (propOf object field))"
  using assms
  by (cases d)
     (auto simp add: getPolymorphicMapper_def getPolymorphicMapperStringVersion_def
        getPolymorphicMapperObjectVersion_def lookupDiscriminator_registered split: if_splits)

text \<open>
  C4. Let the serializer have no registry, or a registry with its discriminator map, and let
  the object carry the discriminator field with a value that is neither \<^verbatim>\<open>undefined\<close> nor
  \<^verbatim>\<open>null\<close>. The index is the discriminator value alone when it equals \<open>uberParent\<close>, and
  \<open>uberParent\<close>, a dot and the value otherwise. Both forms of the discriminator (the string
  form, and the object form read at \<^verbatim>\<open>clientName\<close> when serializing and at
  \<^verbatim>\<open>serializedName\<close> when deserializing) return the mapper registered at that index, and the
  base mapper, with no error, when none is registered. \<open>serializeCompositeType\<close> and
  \<open>deserializeCompositeType\<close> take the model properties of the mapper so found and go through
  them; they make no other use of the base mapper.
\<close>

theorem polymorphic_mapper_lookup:
  assumes "registryHasIndex ser" and "\<not> absent object" and "\<not> absent (propOf object field)"
  shows
   "discriminatorIndex h uberParent (JStr dv)
      = (if uberParent = Some dv then dv else keyOf uberParent @ ''.'' @ dv)
    \<and> (type_polymorphicDiscriminator mapper = Some (DiscString field) \<longrightarrow>
         getPolymorphicMapperStringVersion h ser mapper object objectName
           = Ret (subtypeOrBase h ser mapper (propOf object field)))
    \<and> (type_polymorphicDiscriminator mapper = Some (DiscObject sn (Some field)) \<longrightarrow>
         getPolymorphicMapperObjectVersion h ser mapper object objectName ''serialize''
           = Ret (subtypeOrBase h ser mapper (propOf object field)))
    \<and> (type_polymorphicDiscriminator mapper = Some (DiscObject (Some field) cn) \<longrightarrow>
         getPolymorphicMapperObjectVersion h ser mapper object objectName ''deserialize''
           = Ret (subtypeOrBase h ser mapper (propOf object field)))
    \<and> (type_polymorphicDiscriminator mapper = Some d \<and> declaresDiscriminator (Some d)
          \<and> discriminatorField d ''serialize'' = Some field \<longrightarrow>
         serializeCompositeType rec h ser mapper object objectName
           = rbind (resolveModelProperties ser (subtypeOrBase h ser mapper (propOf object field)) objectName)
               (serializeProperties rec ser object objectName (JObj [])))
    \<and> (type_polymorphicDiscriminator mapper = Some d \<and> declaresDiscriminator (Some d)
          \<and> discriminatorField d ''deserialize'' = Some field \<longrightarrow>
         deserializeCompositeType rec h ser mapper object objectName
           = rbind (resolveModelProperties ser (subtypeOrBase h ser mapper (propOf object field)) objectName)
               (deserializeProperties rec ser (if truthy object then object else JObj []) objectName
                  (JObj [])))"
proof -
  have idx: "discriminatorIndex h uberParent (JStr dv)
      = (if uberParent = Some dv then dv else keyOf uberParent @ ''.'' @ dv)"
    by (auto simp add: discriminatorIndex_def keyOf_def split: option.splits)
  have sv: "type_polymorphicDiscriminator mapper = Some (DiscString field) \<Longrightarrow>
         getPolymorphicMapperStringVersion h ser mapper object objectName
           = Ret (subtypeOrBase h ser mapper (propOf object field))"
    using assms by (simp add: getPolymorphicMapperStringVersion_def lookupDiscriminator_registered)
  have ovs: "type_polymorphicDiscriminator mapper = Some (DiscObject sn (Some field)) \<Longrightarrow>
         getPolymorphicMapperObjectVersion h ser mapper object objectName ''serialize''
           = Ret (subtypeOrBase h ser mapper (propOf object field))"
    using assms by (simp add: getPolymorphicMapperObjectVersion_def lookupDiscriminator_registered)
  have ovd: "type_polymorphicDiscriminator mapper = Some (DiscObject (Some field) cn) \<Longrightarrow>
         getPolymorphicMapperObjectVersion h ser mapper object objectName ''deserialize''
           = Ret (subtypeOrBase h ser mapper (propOf object field))"
    using assms by (simp add: getPolymorphicMapperObjectVersion_def lookupDiscriminator_registered)
  have sc: "type_polymorphicDiscriminator mapper = Some d \<and> declaresDiscriminator (Some d)
          \<and> discriminatorField d ''serialize'' = Some field \<Longrightarrow>
         serializeCompositeType rec h ser mapper object objectName
           = rbind (resolveModelProperties ser (subtypeOrBase h ser mapper (propOf object field)) objectName)
               (serializeProperties rec ser object objectName (JObj []))"
    using assms getPolymorphicMapper_resolved [of ser mapper d "''serialize''" field object h objectName]
    by (simp add: serializeCompositeType_def)
  have dc: "type_polymorphicDiscriminator mapper = Some d \<and> declaresDiscriminator (Some d)
          \<and> discriminatorField d ''deserialize'' = Some field \<Longrightarrow>
         deserializeCompositeType rec h ser mapper object objectName
           = rbind (resolveModelProperties ser (subtypeOrBase h ser mapper (propOf object field)) objectName)
               (deserializeProperties rec ser (if truthy object then object else JObj []) objectName
                  (JObj []))"
    using assms getPolymorphicMapper_resolved [of ser mapper d "''deserialize''" field object h objectName]
    by (simp add: deserializeCompositeType_def)
  from idx sv ovs ovd sc dc show ?thesis by blast
qed


lemma registry_animal: "registryHasIndex animalSerializer"
  by (simp add: registryHasIndex_def animalSerializer_def)

lemma subtype_of_dog:
  "type_uberParent m = Some ''Animal'' \<Longrightarrow> subtypeOrBase h animalSerializer m (JStr ''Dog'') = dogMapper"
  by (simp add: subtypeOrBase_def registeredSubtype_def animalSerializer_def discriminatorIndex_def)

lemma subtype_of_cat:
  "type_uberParent m = Some ''Animal'' \<Longrightarrow> subtypeOrBase h animalSerializer m (JStr ''Cat'') = m"
  by (simp add: subtypeOrBase_def registeredSubtype_def animalSerializer_def discriminatorIndex_def)

text \<open>
  \<^verbatim>\<open>Animal\<close> is the \<open>uberParent\<close>, \<^verbatim>\<open>kind\<close> the discriminator field, and \<^verbatim>\<open>Animal.Dog\<close> is
  registered: a \<^verbatim>\<open>Dog\<close> gets the mapper of dogs, a \<^verbatim>\<open>Cat\<close> the base mapper.
\<close>

theorem polymorphic_mapper_lookup_witness:
  "discriminatorIndex exampleHost (Some ''Animal'') (JStr ''Dog'') = ''Animal.Dog''
   \<and> discriminatorIndex exampleHost (Some ''Animal'') (JStr ''Animal'') = ''Animal''
   \<and> getPolymorphicMapperStringVersion exampleHost animalSerializer animalMapper rex ''pet''
       = Ret dogMapper
   \<and> getPolymorphicMapperStringVersion exampleHost animalSerializer animalMapper tom ''pet''
       = Ret animalMapper
   \<and> getPolymorphicMapperObjectVersion exampleHost animalSerializer animalByObjectMapper rex ''pet''
        ''serialize'' = Ret dogMapper
   \<and> getPolymorphicMapperObjectVersion exampleHost animalSerializer animalByObjectMapper tom ''pet''
        ''deserialize'' = Ret animalByObjectMapper"
  using polymorphic_mapper_lookup [where ser = animalSerializer and object = rex and field = "''kind''" and h = exampleHost
              and uberParent = "Some ''Animal''" and dv = "''Dog''" and mapper = animalMapper
              and objectName = "''pet''"]
        polymorphic_mapper_lookup [where ser = animalSerializer and object = tom and field = "''kind''" and h = exampleHost
              and uberParent = "Some ''Animal''" and dv = "''Animal''" and mapper = animalMapper
              and objectName = "''pet''"]
        polymorphic_mapper_lookup [where ser = animalSerializer and object = rex and field = "''kind''" and h = exampleHost
              and mapper = animalByObjectMapper and sn = "Some ''kind''" and cn = "Some ''kind''"
              and objectName = "''pet''"]
        polymorphic_mapper_lookup [where ser = animalSerializer and object = tom and field = "''kind''" and h = exampleHost
              and mapper = animalByObjectMapper and sn = "Some ''kind''" and cn = "Some ''kind''"
              and objectName = "''pet''"]
  by (simp add: registry_animal rex_def tom_def subtype_of_dog subtype_of_cat animalMapper_def
        animalByObjectMapper_def keyOf_def)

subsection \<open>Dotted names\<close>








lemma getProp_JObj [simp]: "getProp (JObj kvs) k = Ret (propOf (JObj kvs) k)"
  by (simp add: getProp_def)




lemma walkResponse_Undefined [simp]: "walkResponse Undefined paths = Undefined"
  by (cases paths) simp_all


lemma serializeInto_present:
  assumes "\<not> readOnly pm" and "\<not> absent parentObject"
    and "rec pm v (propertyObjectNameOf pm objectName) = Ret w"
  shows "serializeInto rec pm v objectName propName parentObject
           = placeProperty pm propName parentObject w"
  using assms by (simp add: serializeInto_def propertyObjectNameOf_def Let_def)


lemma deserializeProperty_dotted:
  assumes "\<not> isXML ser" and "headerCollectionPrefix pm = None"
    and "\<not> (isArray (propOf responseBody key) \<and> serializedName pm = [])"
  shows "deserializeProperty rec ser responseBody objectName inst key pm =
     (if walkResponse responseBody (splitSerializeName (serializedName pm)) \<noteq> Undefined
      then rbind (rec pm (walkResponse responseBody (splitSerializeName (serializedName pm)))
                    (propertyObjectNameOf pm objectName))
             (setProp inst key)
      else Ret inst)"
  using assms by (auto simp add: deserializeProperty_def propertyObjectNameOf_def Let_def)

lemma split_abc: "splitSerializeName ''a.b.c'' = [''a'', ''b'', ''c'']"
  by (simp add: splitSerializeName_def)



lemma composite_sel:
  "type_name (compositeMapper s props) = ''Composite''"
  "type_modelProperties (compositeMapper s props) = Some props"
  "type_polymorphicDiscriminator (compositeMapper s props) = None"
  "constraints (compositeMapper s props) = None"
  "required (compositeMapper s props) = False"
  "nullable (compositeMapper s props) = None"
  "defaultValue (compositeMapper s props) = Undefined"
  "isConstant (compositeMapper s props) = False"
  by (simp_all add: compositeMapper_def)

lemma serialize_composite:
  "\<not> absent object \<Longrightarrow>
   serialize (Suc fuel) h ser (compositeMapper s props) object nm
     = serializeProperties (serialize fuel h ser) ser object (resolveObjectName (compositeMapper s props) nm) (JObj []) props"
  apply (simp add: serializeBody_def withDefault_def composite_sel)
  apply (simp add: serializePresent_def validateConstraints_def composite_sel typeNameIs_eval)
  apply (simp add: serializeCompositeType_def composite_sel resolveModelProperties_def)
  done

lemma rbind_Ret [simp]: "rbind r Ret = r" "rbind r (\<lambda>x. Ret x) = r"
  by (cases r; simp)+

lemma deserialize_composite:
  "truthy responseBody \<Longrightarrow>
   deserialize (Suc fuel) h ser (compositeMapper s props) responseBody nm
     = deserializeProperties (deserialize fuel h ser) ser responseBody (resolveObjectName (compositeMapper s props) nm) (JObj []) props"
  apply (subgoal_tac "\<not> absent responseBody")
  apply (simp add: deserializeBody_def composite_sel typeNameIs_eval)
  apply (simp add: deserializeCompositeType_def composite_sel resolveModelProperties_def)
   apply (auto simp: absent_def)
  done

lemma plain_sel:
  "serializedName (plainMapper t s) = s" "readOnly (plainMapper t s) = False"
  "xmlIsAttribute (plainMapper t s) = False" "xmlIsWrapped (plainMapper t s) = False"
  "headerCollectionPrefix (plainMapper t s) = None"
  by (simp_all add: plainMapper_def)






subsection \<open>The wire key in XML mode\<close>

lemma objSet_twice [simp]: "objSet (objSet p k a) k b = objSet p k b"
  by (induction p) auto

lemma serializeProperty_xml:
  assumes "isXML ser" and "\<not> readOnly pm"
    and "rec pm (propOf object key) (propertyObjectNameOf pm objectName) = Ret w"
  shows "serializeProperty rec ser object objectName (JObj p) key pm
           = placeProperty pm (if xmlIsWrapped pm then xmlName pm
                               else orElse (xmlElementName pm) (xmlName pm)) (JObj p) w"
  using assms by (simp add: serializeProperty_def serializeInto_present)

lemma serializeProperty_undotted:
  assumes "\<not> isXML ser" and "splitSerializeName (serializedName pm) = [k]" and "\<not> readOnly pm"
    and "rec pm (propOf object key) (propertyObjectNameOf pm objectName) = Ret w"
  shows "serializeProperty rec ser object objectName (JObj p) key pm
           = placeProperty pm (Some k) (JObj p) w"
  using assms by (simp add: serializeProperty_def serializeInto_present)

text \<open>
  C6, as amended. In XML mode, take a property of an object that is not read-only and not an
  attribute, whose serialized value is not \<^verbatim>\<open>undefined\<close>. When it is wrapped, the payload gets, under
  the key \<^verbatim>\<open>xmlName\<close>, an object that holds the value under the key \<^verbatim>\<open>xmlElementName\<close>.
  When it is not wrapped, the payload gets the value under \<^verbatim>\<open>xmlElementName\<close> if that is set
  and not empty, and under \<^verbatim>\<open>xmlName\<close> otherwise. When the key so chosen is not set, the
  payload is left as it is.
\<close>

theorem xml_wire_key:
  assumes "isXML ser" and "\<not> absent object" and "\<not> readOnly pm"
    and "rec pm (propOf object key) (propertyObjectNameOf pm objectName) = Ret w"
    and "w \<noteq> Undefined" and "\<not> xmlIsAttribute pm"
  shows "serializeProperty rec ser object objectName (JObj p) key pm =
     (if xmlIsWrapped pm
      then (case xmlName pm of
              None \<Rightarrow> Ret (JObj p)
            | Some name \<Rightarrow> Ret (JObj (objSet p name (JObj [(keyOf (xmlElementName pm), w)]))))
      else (case orElse (xmlElementName pm) (xmlName pm) of
              None \<Rightarrow> Ret (JObj p)
            | Some name \<Rightarrow> Ret (JObj (objSet p name w))))"
  using assms by (simp add: serializeProperty_xml placeProperty_def split: option.splits)

lemma ser_string: "serialize (Suc fuel) h ser (plainMapper ''String'' s) (JStr v) nm = Ret (JStr v)"
  apply (simp add: serializeBody_def withDefault_def plainMapper_def)
  apply (simp add: serializePresent_def validateConstraints_def typeNameIs_eval serializeBasicTypes_def)
  done

lemma wrapped_sel:
  "readOnly wrappedItemsMapper = False" "xmlIsAttribute wrappedItemsMapper = False"
  "xmlIsWrapped wrappedItemsMapper = True" "xmlName wrappedItemsMapper = Some ''Items''"
  "xmlElementName wrappedItemsMapper = Some ''Item''"
  "serializedName wrappedItemsMapper = ''items''"
  "required wrappedItemsMapper = False" "nullable wrappedItemsMapper = None"
  "defaultValue wrappedItemsMapper = Undefined" "isConstant wrappedItemsMapper = False"
  "type_name wrappedItemsMapper = ''Sequence''" "constraints wrappedItemsMapper = None"
  "type_element wrappedItemsMapper = Some (plainMapper ''String'' ''Item'')"
  by (simp_all add: wrappedItemsMapper_def)

lemma ser_wrappedItems:
  "serialize (Suc (Suc fuel)) h ser wrappedItemsMapper (JArr [JStr ''a'']) nm = Ret (JArr [JStr ''a''])"
proof -
  have "serializeSequenceType (serialize (Suc fuel) h ser) wrappedItemsMapper (JArr [JStr ''a'']) n'
          = Ret (JArr [JStr ''a''])" for n'
    by (simp add: serializeSequenceType_def wrapped_sel ser_string del: serialize.simps)
  then show ?thesis
    apply (subst serialize.simps)
    apply (simp add: serializeBody_def withDefault_def wrapped_sel serializePresent_def
        validateConstraints_def typeNameIs_eval del: serialize.simps)
    done
qed

text \<open>
  The wrapped list \<^verbatim>\<open>items\<close>, with \<^verbatim>\<open>xmlName: "Items"\<close> and \<^verbatim>\<open>xmlElementName: "Item"\<close>.
\<close>

theorem xml_wire_key_witness:
  "serializeProperty (serialize (Suc (Suc 0)) exampleHost xmlSerializer) xmlSerializer
     (JObj [(''items'', JArr [JStr ''a''])]) ''o'' (JObj []) ''items'' wrappedItemsMapper
   = Ret (JObj [(''Items'', JObj [(''Item'', JArr [JStr ''a''])])])"
  using xml_wire_key [where ser = xmlSerializer and pm = wrappedItemsMapper and object = "JObj [(''items'', JArr [JStr ''a''])]"
      and key = "''items''" and rec = "serialize (Suc (Suc 0)) exampleHost xmlSerializer" and objectName = "''o''"
      and w = "JArr [JStr ''a'']" and p = "[]"]
  by (simp add: xmlSerializer_def wrapped_sel ser_wrappedItems keyOf_def del: serialize.simps)

text \<open>
  The claim as the spec states it fails: the key of the wrapped list in the payload is
  \<^verbatim>\<open>Items\<close>, its \<^verbatim>\<open>xmlName\<close>; the payload has nothing under \<^verbatim>\<open>Item\<close>.
\<close>

theorem xml_wrapped_key_counterexample:
  "xmlIsWrapped wrappedItemsMapper \<and> xmlElementName wrappedItemsMapper = Some ''Item''
   \<and> serialize (Suc (Suc (Suc 0))) exampleHost xmlSerializer wrappedListMapper
        (JObj [(''items'', JArr [JStr ''a''])]) ''o''
      = Ret (JObj [(''Items'', JObj [(''Item'', JArr [JStr ''a''])])])
   \<and> propOf (JObj [(''Items'', JObj [(''Item'', JArr [JStr ''a''])])]) ''Item'' = Undefined"
proof -
  have "serializeProperty (serialize (Suc (Suc 0)) exampleHost xmlSerializer) xmlSerializer
     (JObj [(''items'', JArr [JStr ''a''])]) ''o'' (JObj []) ''items'' wrappedItemsMapper
   = Ret (JObj [(''Items'', JObj [(''Item'', JArr [JStr ''a''])])])"
    by (subst serializeProperty_xml [where w = "JArr [JStr ''a'']"])
       (simp_all add: xmlSerializer_def wrapped_sel ser_wrappedItems keyOf_def placeProperty_def
          del: serialize.simps)
  then show ?thesis
    by (simp add: wrappedListMapper_def serialize_composite resolveObjectName_def wrapped_sel
          compositeMapper_def [THEN arg_cong, of serializedName] del: serialize.simps)
qed

subsection \<open>Read-only properties\<close>

lemma serializeInto_readOnly:
  "readOnly pm \<Longrightarrow> serializeInto rec pm v objectName propName parentObject = Ret parentObject"
  by (simp add: serializeInto_def)

lemma split_ab: "splitSerializeName ''a.b'' = [''a'', ''b'']"
  by (simp add: splitSerializeName_def)

lemma readOnlyDotted_sel:
  "readOnly readOnlyDottedProperty = True" "serializedName readOnlyDottedProperty = ''a.b''"
  "headerCollectionPrefix readOnlyDottedProperty = None"
  "type_name readOnlyDottedProperty = ''Number''" "isConstant readOnlyDottedProperty = False"
  by (simp_all add: readOnlyDottedProperty_def)

lemma readOnlyDotted_property:
  "serializeProperty rec jsonSerializer (JObj [(''x'', JNum (Num 1))]) nm (JObj []) ''x''
     readOnlyDottedProperty
   = Ret (JObj [(''a'', JObj [])])"
  by (simp add: serializeProperty_def jsonSerializer_def split_ab readOnlyDotted_sel
        serializeInto_readOnly Let_def)

lemma deser_readOnlyDotted_number:
  "deserialize (Suc fuel) h ser readOnlyDottedProperty (JNum (Num q)) nm = Ret (JNum (Num q))"
  by (simp add: deserializeBody_def readOnlyDotted_sel typeNameIs_eval jsParseFloat_def)

lemma readOnlyDotted_deserialized:
  "deserialize (Suc (Suc fuel)) h jsonSerializer readOnlyDottedMapper
     (JObj [(''a'', JObj [(''b'', JNum (Num 1))])]) nm = Ret (JObj [(''x'', JNum (Num 1))])"
proof -
  have "deserializeProperty (deserialize (Suc fuel) h jsonSerializer) jsonSerializer
          (JObj [(''a'', JObj [(''b'', JNum (Num 1))])]) n' (JObj []) ''x'' readOnlyDottedProperty
        = Ret (JObj [(''x'', JNum (Num 1))])" for n'
    by (subst deserializeProperty_dotted)
       (simp_all add: jsonSerializer_def readOnlyDotted_sel split_ab deser_readOnlyDotted_number
          del: deserialize.simps)
  then show ?thesis
    by (simp add: readOnlyDottedMapper_def deserialize_composite del: deserialize.simps)
qed

lemma readOnly_direct_key_is_skipped:
  assumes "readOnly pm" and "isXML ser \<or> (\<exists>k. splitSerializeName (serializedName pm) = [k])"
  shows "serializeProperty rec ser object objectName payload key pm = Ret payload"
  using assms by (auto simp add: serializeProperty_def serializeInto_readOnly)

text \<open>
  C7. Without XML, the mapper whose only property \<^verbatim>\<open>x\<close> is read-only and has the serialized
  name \<^verbatim>\<open>a.b\<close> serializes \<^verbatim>\<open>{ x: 1 }\<close> to \<^verbatim>\<open>{ a: {} }\<close>: the value is not placed, but the
  object for the first segment of the path is, because the loop that creates the objects
  of the path (lines 466 to 472) runs before the test of \<^verbatim>\<open>readOnly\<close> (line 476). The mapper
  with no property serializes the same object to \<^verbatim>\<open>{}\<close>. Deserializing \<^verbatim>\<open>{ a: { b: 1 } }\<close> with
  the first mapper gives \<^verbatim>\<open>{ x: 1 }\<close>: \<open>deserialize\<close> reads a read-only property as any other.
  A read-only property whose key lies directly in the payload leaves the payload as it is
  (\<open>readOnly_direct_key_is_skipped\<close>).
\<close>

theorem readOnly_dotted_property_leaves_trace:
  "serialize (Suc (Suc fuel)) h jsonSerializer readOnlyDottedMapper (JObj [(''x'', JNum (Num 1))]) objectName
     = Ret (JObj [(''a'', JObj [])])
   \<and> serialize (Suc (Suc fuel)) h jsonSerializer emptyMapper (JObj [(''x'', JNum (Num 1))]) objectName
     = Ret (JObj [])
   \<and> deserialize (Suc (Suc fuel)) h jsonSerializer readOnlyDottedMapper
        (JObj [(''a'', JObj [(''b'', JNum (Num 1))])]) objectName = Ret (JObj [(''x'', JNum (Num 1))])"
  by (simp add: readOnlyDottedMapper_def emptyMapper_def serialize_composite readOnlyDotted_property
        readOnlyDotted_deserialized [unfolded readOnlyDottedMapper_def]
        del: serialize.simps deserialize.simps)

subsection \<open>Undefined and null among the properties\<close>

lemma nullableDotted_sel:
  "readOnly nullableDottedProperty = False" "xmlIsAttribute nullableDottedProperty = False"
  "xmlIsWrapped nullableDottedProperty = False" "serializedName nullableDottedProperty = ''a.b''"
  "required nullableDottedProperty = False" "nullable nullableDottedProperty = Some True"
  "defaultValue nullableDottedProperty = Undefined" "isConstant nullableDottedProperty = False"
  by (simp_all add: nullableDottedProperty_def)

lemma nullDotted_property:
  "serializeProperty rec jsonSerializer (JObj [(''x'', Null)]) nm (JObj []) ''x'' nullableDottedProperty
   = Ret (JObj [])"
  by (simp add: serializeProperty_def jsonSerializer_def split_ab serializeInto_def Let_def
        nullableDotted_sel)

lemma ser_nullableDotted_null:
  "serialize (Suc fuel) h ser nullableDottedProperty Null nm = Ret Null"
  by (simp add: serializeBody_def withDefault_def nullableDotted_sel)

lemma ser_nullable_undefined:
  "serialize (Suc fuel) h ser nullableMapper Undefined nm = Ret Undefined"
  by (simp add: serializeBody_def withDefault_def nullableMapper_def)

lemma ser_nullable_null:
  "serialize (Suc fuel) h ser nullableMapper Null nm = Ret Null"
  by (simp add: serializeBody_def withDefault_def nullableMapper_def)

lemma nullableDotted_ser:
  "serialize (Suc (Suc fuel)) h jsonSerializer nullableDottedMapper (JObj [(''x'', Null)]) nm = Ret (JObj [])"
  by (simp add: nullableDottedMapper_def serialize_composite nullDotted_property del: serialize.simps)

lemma nullable_sel:
  "readOnly nullableMapper = False" "xmlIsAttribute nullableMapper = False"
  "xmlIsWrapped nullableMapper = False" "serializedName nullableMapper = ''x''"
  by (simp_all add: nullableMapper_def)

lemma split_x: "splitSerializeName ''x'' = [''x'']"
  by (simp add: splitSerializeName_def)

lemma nullable_property:
  "serializeProperty (serialize (Suc fuel) h jsonSerializer) jsonSerializer (JObj [(''x'', Null)]) nm
     (JObj []) ''x'' nullableMapper
   = Ret (JObj [(''x'', Null)])"
  by (subst serializeProperty_undotted [where k = "''x''" and w = Null])
     (simp_all add: jsonSerializer_def nullable_sel split_x ser_nullable_null placeProperty_def
        del: serialize.simps)

lemma nullable_ser:
  "serialize (Suc (Suc fuel)) h jsonSerializer (compositeMapper ''o'' [(''x'', nullableMapper)])
     (JObj [(''x'', Null)]) nm = Ret (JObj [(''x'', Null)])"
  by (simp add: serialize_composite nullable_property del: serialize.simps)

text \<open>
  The claim as stated fails for a dotted name: the nullable property \<^verbatim>\<open>x\<close> with the serialized
  name \<^verbatim>\<open>a.b\<close>, supplied as \<^verbatim>\<open>null\<close>, serializes to \<^verbatim>\<open>null\<close> by itself and is placed when its
  name is \<^verbatim>\<open>x\<close>, but under \<^verbatim>\<open>a.b\<close> the payload stays \<^verbatim>\<open>{}\<close>: an absent property does not
  create the object \<^verbatim>\<open>a\<close>, and without it nothing is placed. In XML mode the same property,
  which has neither \<^verbatim>\<open>xmlName\<close> nor \<^verbatim>\<open>xmlElementName\<close>, serializes to \<^verbatim>\<open>null\<close> and has no
  key to be placed under.
\<close>

lemma nullable_unnamed_xml:
  "serialize (Suc (Suc fuel)) h xmlSerializer (compositeMapper ''o'' [(''x'', nullableMapper)])
     (JObj [(''x'', Null)]) nm = Ret (JObj [])"
proof -
  have "serializeProperty (serialize (Suc fuel) h xmlSerializer) xmlSerializer (JObj [(''x'', Null)]) n'
          (JObj []) ''x'' nullableMapper = Ret (JObj [])" for n'
    by (subst serializeProperty_xml [where w = Null])
       (simp_all add: xmlSerializer_def nullable_sel ser_nullable_null placeProperty_def orElse_def
          nullableMapper_def [THEN arg_cong, of xmlName]
          nullableMapper_def [THEN arg_cong, of xmlElementName] del: serialize.simps)
  then show ?thesis
    by (simp add: serialize_composite del: serialize.simps)
qed

theorem null_under_dotted_name_counterexample:
  "serialize (Suc 0) exampleHost jsonSerializer nullableDottedProperty Null ''o.a.b'' = Ret Null
   \<and> serialize (Suc (Suc 0)) exampleHost jsonSerializer nullableDottedMapper (JObj [(''x'', Null)]) ''o''
       = Ret (JObj [])
   \<and> serialize (Suc (Suc 0)) exampleHost jsonSerializer (compositeMapper ''o'' [(''x'', nullableMapper)])
        (JObj [(''x'', Null)]) ''o'' = Ret (JObj [(''x'', Null)])
   \<and> serialize (Suc 0) exampleHost xmlSerializer nullableMapper Null ''o.x'' = Ret Null
   \<and> serialize (Suc (Suc 0)) exampleHost xmlSerializer (compositeMapper ''o'' [(''x'', nullableMapper)])
        (JObj [(''x'', Null)]) ''o'' = Ret (JObj [])"
  by (simp only: ser_nullableDotted_null nullable_ser nullableDotted_ser ser_nullable_null
        nullable_unnamed_xml simp_thms)

text \<open>
  An absent property whose name has two segments before the last makes \<open>serialize\<close> throw:
  after the first segment \<^verbatim>\<open>parentObject\<close> is \<^verbatim>\<open>undefined\<close>, and the loop reads its property
  for the second one.
\<close>

lemma three_segments_absent_throws:
  "serialize (Suc (Suc fuel)) h jsonSerializer dottedMapper (JObj []) objectName = Throw TypeError"
proof -
  have "serializeProperty rec jsonSerializer (JObj []) n' (JObj []) ''x'' (plainMapper ''Number'' ''a.b.c'')
        = Throw TypeError" for rec n'
    by (simp add: serializeProperty_def jsonSerializer_def plain_sel split_abc getProp_def Let_def)
  then show ?thesis
    by (simp add: dottedMapper_def serialize_composite del: serialize.simps)
qed

lemma objSet_same: "map_of p a = Some v \<Longrightarrow> objSet p a v = p"
  by (induction p) (auto split: if_splits)

lemma serializeProperty_one_level_missing:
  assumes "\<not> isXML ser" and "splitSerializeName (serializedName pm) = [a, k]"
    and "absent (propOf object key)" and "map_of p a = None"
  shows "serializeProperty rec ser object objectName (JObj p) key pm = Ret (JObj p)"
  using assms by (simp add: serializeProperty_def serializeInto_def Let_def)

lemma serializeProperty_one_level_present:
  assumes "\<not> isXML ser" and "splitSerializeName (serializedName pm) = [a, k]"
    and "\<not> readOnly pm" and "\<not> xmlIsAttribute pm" and "\<not> xmlIsWrapped pm"
    and "map_of p a = Some (JObj q)"
    and "rec pm (propOf object key) (propertyObjectNameOf pm objectName) = Ret w"
    and "w \<noteq> Undefined"
  shows "serializeProperty rec ser object objectName (JObj p) key pm
           = Ret (JObj (objSet p a (JObj (objSet q k w))))"
  using assms
  by (auto simp add: serializeProperty_def serializeInto_present placeProperty_def Let_def objSet_same)

text \<open>
  C10, as amended. Take a property that is not read-only, not an attribute and not wrapped.
  \<^item> When its key lies directly in the payload (in XML mode, or without XML when its name is
    a single segment): a serialized value \<^verbatim>\<open>undefined\<close> leaves the payload as it is, and a
    serialized value \<^verbatim>\<open>null\<close> is placed under the key.
  \<^item> When, without XML, its name has one segment before the last and the property is absent
    from the object (\<^verbatim>\<open>undefined\<close> or \<^verbatim>\<open>null\<close>): if the payload has nothing under the first
    segment, the payload is left as it is, \<^verbatim>\<open>null\<close> or not; if it has an object there and the
    serialized value is \<^verbatim>\<open>null\<close>, the \<^verbatim>\<open>null\<close> is placed in that object under the last segment.
\<close>

theorem undefined_omitted_null_placed:
  assumes "\<not> absent object" and "\<not> readOnly pm" and "\<not> xmlIsAttribute pm"
    and "\<not> xmlIsWrapped pm"
  shows
   "(isXML ser \<and> orElse (xmlElementName pm) (xmlName pm) = Some k
       \<or> \<not> isXML ser \<and> splitSerializeName (serializedName pm) = [k] \<longrightarrow>
       (rec pm (propOf object key) (propertyObjectNameOf pm objectName) = Ret Undefined \<longrightarrow>
          serializeProperty rec ser object objectName (JObj p) key pm = Ret (JObj p))
       \<and> (rec pm (propOf object key) (propertyObjectNameOf pm objectName) = Ret Null \<longrightarrow>
          serializeProperty rec ser object objectName (JObj p) key pm = Ret (JObj (objSet p k Null))))
    \<and> (\<not> isXML ser \<and> splitSerializeName (serializedName pm) = [a, k]
         \<and> absent (propOf object key) \<longrightarrow>
       (map_of p a = None \<longrightarrow>
          serializeProperty rec ser object objectName (JObj p) key pm = Ret (JObj p))
       \<and> (map_of p a = Some (JObj q)
            \<and> rec pm (propOf object key) (propertyObjectNameOf pm objectName) = Ret Null \<longrightarrow>
          serializeProperty rec ser object objectName (JObj p) key pm
            = Ret (JObj (objSet p a (JObj (objSet q k Null))))))"
proof -
  have direct: "serializeProperty rec ser object objectName (JObj p) key pm
                  = placeProperty pm (Some k) (JObj p) w"
    if "isXML ser \<and> orElse (xmlElementName pm) (xmlName pm) = Some k
          \<or> \<not> isXML ser \<and> splitSerializeName (serializedName pm) = [k]"
      and "rec pm (propOf object key) (propertyObjectNameOf pm objectName) = Ret w" for w
    using that assms serializeProperty_xml [of ser pm rec object key objectName w p]
      serializeProperty_undotted [of ser pm k rec object key objectName w p]
    by auto
  have undef: "placeProperty pm (Some k) (JObj p) Undefined = Ret (JObj p)"
    by (simp add: placeProperty_def)
  have null: "placeProperty pm (Some k) (JObj p) Null = Ret (JObj (objSet p k Null))"
    using assms by (simp add: placeProperty_def)
  show ?thesis
    using direct [of Undefined] direct [of Null] undef null
      serializeProperty_one_level_missing [of ser pm a k object key p rec objectName]
      serializeProperty_one_level_present [of ser pm a k p q rec object key objectName Null] assms
    by auto
qed

text \<open>
  The nullable property \<^verbatim>\<open>x\<close>: missing from the object, it adds no key; supplied as
  \<^verbatim>\<open>null\<close>, it is placed as \<^verbatim>\<open>null\<close>. Under the name \<^verbatim>\<open>a.b\<close> the \<^verbatim>\<open>null\<close> is dropped from an
  empty payload and placed when the payload already has the object \<^verbatim>\<open>a\<close>.
\<close>

theorem undefined_omitted_null_placed_witness:
  "serializeProperty (serialize (Suc 0) exampleHost jsonSerializer) jsonSerializer (JObj []) ''o''
     (JObj []) ''x'' nullableMapper = Ret (JObj [])
   \<and> serializeProperty (serialize (Suc 0) exampleHost jsonSerializer) jsonSerializer
       (JObj [(''x'', Null)]) ''o'' (JObj []) ''x'' nullableMapper = Ret (JObj [(''x'', Null)])
   \<and> serializeProperty (serialize (Suc 0) exampleHost jsonSerializer) jsonSerializer
       (JObj [(''x'', Null)]) ''o'' (JObj []) ''x'' nullableDottedProperty = Ret (JObj [])
   \<and> serializeProperty (serialize (Suc 0) exampleHost jsonSerializer) jsonSerializer
       (JObj [(''x'', Null)]) ''o'' (JObj [(''a'', JObj [])]) ''x'' nullableDottedProperty
       = Ret (JObj [(''a'', JObj [(''b'', Null)])])"
  using undefined_omitted_null_placed [where pm = nullableMapper and ser = jsonSerializer and k = "''x''"
               and rec = "serialize (Suc 0) exampleHost jsonSerializer" and object = "JObj []"
               and key = "''x''" and objectName = "''o''" and p = "[]"]
        undefined_omitted_null_placed [where pm = nullableMapper and ser = jsonSerializer and k = "''x''"
               and rec = "serialize (Suc 0) exampleHost jsonSerializer" and object = "JObj [(''x'', Null)]"
               and key = "''x''" and objectName = "''o''" and p = "[]"]
        undefined_omitted_null_placed [where pm = nullableDottedProperty and ser = jsonSerializer and a = "''a''" and k = "''b''"
               and rec = "serialize (Suc 0) exampleHost jsonSerializer" and object = "JObj [(''x'', Null)]"
               and key = "''x''" and objectName = "''o''" and p = "[]"]
        undefined_omitted_null_placed [where pm = nullableDottedProperty and ser = jsonSerializer and a = "''a''" and k = "''b''"
               and rec = "serialize (Suc 0) exampleHost jsonSerializer" and object = "JObj [(''x'', Null)]"
               and key = "''x''" and objectName = "''o''" and p = "[(''a'', JObj [])]" and q = "[]"]
  by (simp add: jsonSerializer_def nullable_sel nullableDotted_sel split_x split_ab
        ser_nullable_null ser_nullable_undefined ser_nullableDotted_null del: serialize.simps)

end
